theory Spec2Isabelle
  imports Main "HOL-Library.Word" "HOL-Library.Sublist"
begin

section \<open>JavaScript strings\<close>

text \<open>
  A JavaScript string is a sequence of UTF-16 code units. Literals of the source that are
  plain ASCII are written \<open>js ''...''\<close>; other code units are written as numerals.
\<close>

type_synonym jsstring = "16 word list"

definition js :: "string \<Rightarrow> jsstring" where
  "js s = map (\<lambda>c. of_nat (of_char c)) s"

text \<open>
  \<open>String.prototype.trim\<close> strips the code points of WhiteSpace and LineTerminator
  (ECMAScript 12.2 and 12.3) from both ends; all of them are single code units.
\<close>

definition isWhiteSpace :: "16 word \<Rightarrow> bool" where
  "isWhiteSpace c =
     (c \<in> {0x9, 0xA, 0xB, 0xC, 0xD, 0x20, 0xA0, 0x1680, 0x2028, 0x2029, 0x202F, 0x205F,
            0x3000, 0xFEFF}
      \<or> (0x2000 \<le> c \<and> c \<le> 0x200A))"

definition js_trim :: "jsstring \<Rightarrow> jsstring" where
  "js_trim s = rev (dropWhile isWhiteSpace (rev (dropWhile isWhiteSpace s)))"

text \<open>\<open>hay.includes(needle)\<close>: the needle occurs at some position of the hay.\<close>

fun js_includes :: "jsstring \<Rightarrow> jsstring \<Rightarrow> bool" where
  "js_includes [] needle = (needle = [])"
| "js_includes (c # cs) needle = (prefix needle (c # cs) \<or> js_includes cs needle)"

definition js_endsWith :: "jsstring \<Rightarrow> jsstring \<Rightarrow> bool" where
  "js_endsWith s t = prefix (rev t) (rev s)"

text \<open>\<open>s.substring(a, b)\<close> for non-negative integers: the arguments are swapped when \<open>a > b\<close>.\<close>

definition js_substring :: "jsstring \<Rightarrow> nat \<Rightarrow> nat \<Rightarrow> jsstring" where
  "js_substring s a b = take (max a b - min a b) (drop (min a b) s)"

text \<open>\<open>s.split(sep)\<close> for a separator of one code unit.\<close>

fun js_split :: "16 word \<Rightarrow> jsstring \<Rightarrow> jsstring list" where
  "js_split sep [] = [[]]"
| "js_split sep (c # cs) =
     (if c = sep then [] # js_split sep cs
      else (case js_split sep cs of [] \<Rightarrow> [[c]] | p # ps \<Rightarrow> (c # p) # ps))"

text \<open>The template literal \<open>`${n}`\<close> of a non-negative integer: its decimal digits.\<close>

fun showNat :: "nat \<Rightarrow> jsstring" where
  "showNat n = (if n < 10 then [of_nat (48 + n)] else showNat (n div 10) @ [of_nat (48 + n mod 10)])"

declare showNat.simps [simp del]

section \<open>JavaScript values\<close>

text \<open>
  The values the service handles under the type \<open>any\<close>: what \<open>JSON.parse\<close> returns, the
  request bodies it builds, and \<open>undefined\<close>. A number is carried as the text that
  \<open>ToString\<close> gives for it (\<open>4096\<close>, \<open>0.1\<close>); \<open>0\<close> and \<open>-0\<close> both give \<open>0\<close>, and JSON has no
  \<open>NaN\<close>. An object is the list of its own properties, each key once.
\<close>

datatype jsvalue =
    JUndefined
  | JNull
  | JBool bool
  | JNum jsstring
  | JStr jsstring
  | JArr "jsvalue list"
  | JObj "(jsstring \<times> jsvalue) list"

datatype js_error =
    Error jsstring
  | TypeError jsstring
  | SyntaxError jsstring
  | URIError jsstring

text \<open>\<open>e?.message || String(e)\<close> for an error object: the name stands in for an empty message.\<close>

fun errorMessage :: "js_error \<Rightarrow> jsstring" where
  "errorMessage (Error m) = (if m \<noteq> [] then m else js ''Error'')"
| "errorMessage (TypeError m) = (if m \<noteq> [] then m else js ''TypeError'')"
| "errorMessage (SyntaxError m) = (if m \<noteq> [] then m else js ''SyntaxError'')"
| "errorMessage (URIError m) = (if m \<noteq> [] then m else js ''URIError'')"

fun truthy :: "jsvalue \<Rightarrow> bool" where
  "truthy JUndefined = False"
| "truthy JNull = False"
| "truthy (JBool b) = b"
| "truthy (JNum n) = (n \<noteq> js ''0'')"
| "truthy (JStr s) = (s \<noteq> [])"
| "truthy (JArr xs) = True"
| "truthy (JObj kvs) = True"

text \<open>
  \<open>v.k\<close> for the property names the service reads (\<open>output\<close>, \<open>message\<close>, \<open>content\<close>,
  \<open>choices\<close>, \<open>text\<close>), none of which is a property of a built-in prototype: an object gives
  its own property, every other value \<open>undefined\<close>. (\<open>null.k\<close> and \<open>undefined.k\<close> throw; the
  callers below treat them before they get here.)
\<close>

fun getProp :: "jsvalue \<Rightarrow> jsstring \<Rightarrow> jsvalue" where
  "getProp (JObj kvs) k = (case map_of kvs k of None \<Rightarrow> JUndefined | Some v \<Rightarrow> v)"
| "getProp v k = JUndefined"

text \<open>\<open>v?.k\<close>: \<open>undefined\<close> when \<open>v\<close> is \<open>null\<close> or \<open>undefined\<close>.\<close>

fun optProp :: "jsvalue \<Rightarrow> jsstring \<Rightarrow> jsvalue" where
  "optProp JUndefined k = JUndefined"
| "optProp JNull k = JUndefined"
| "optProp v k = getProp v k"

text \<open>\<open>v?.[0]\<close>: the first element of an array, the first code unit of a string, the own
  property \<open>"0"\<close> of an object.\<close>

fun optIndex0 :: "jsvalue \<Rightarrow> jsvalue" where
  "optIndex0 (JArr xs) = (case xs of [] \<Rightarrow> JUndefined | x # _ \<Rightarrow> x)"
| "optIndex0 (JStr s) = (case s of [] \<Rightarrow> JUndefined | c # _ \<Rightarrow> JStr [c])"
| "optIndex0 (JObj kvs) = getProp (JObj kvs) (js ''0'')"
| "optIndex0 v = JUndefined"

text \<open>
  The places where the engine itself throws a \<open>TypeError\<close>; the wording of the message is
  the engine's and is a parameter of the model.
\<close>

datatype type_error_site =
    ContentFilterNotAFunction
  | PartIsNull
  | CannotConvertToPrimitive
  | ResultTrimNotAFunction

text \<open>
  \<open>String(v)\<close> and \<open>xs.join(sep)\<close>. An array is joined with commas; \<open>join\<close> renders \<open>null\<close> and
  \<open>undefined\<close> elements as the empty string. An object gives \<open>[object Object]\<close> unless an
  own property \<open>toString\<close> (never callable in a JSON value) hides the inherited method, in
  which case the conversion throws.
\<close>

fun js_String :: "(type_error_site \<Rightarrow> jsstring) \<Rightarrow> jsvalue \<Rightarrow> js_error + jsstring"
  and js_join :: "(type_error_site \<Rightarrow> jsstring) \<Rightarrow> jsstring \<Rightarrow> jsvalue list \<Rightarrow> js_error + jsstring"
where
  "js_String m JUndefined = Inr (js ''undefined'')"
| "js_String m JNull = Inr (js ''null'')"
| "js_String m (JBool b) = Inr (if b then js ''true'' else js ''false'')"
| "js_String m (JNum n) = Inr n"
| "js_String m (JStr s) = Inr s"
| "js_String m (JArr xs) = js_join m (js '','') xs"
| "js_String m (JObj kvs) =
     (if map_of kvs (js ''toString'') \<noteq> None then Inl (TypeError (m CannotConvertToPrimitive))
      else Inr (js ''[object Object]''))"
| "js_join m sep [] = Inr []"
| "js_join m sep (x # xs) =
     (case (if x = JUndefined \<or> x = JNull then Inr [] else js_String m x) of
        Inl e \<Rightarrow> Inl e
      | Inr s \<Rightarrow>
          (if xs = [] then Inr s
           else (case js_join m sep xs of Inl e \<Rightarrow> Inl e | Inr r \<Rightarrow> Inr (s @ sep @ r))))"

section \<open>The environment\<close>

text \<open>
  What the service takes from its host: the preference store (\<open>Zotero.Prefs.get\<close>, \<open>None\<close>
  when the preference is unset, is not a string or the read throws), the HTTP primitive
  (\<open>Zotero.HTTP.request\<close>, which may answer differently at each call, so it sees the requests
  issued before), and the built-ins \<open>JSON.parse\<close>, \<open>JSON.stringify\<close> (for the text it adds
  to an error message) and \<open>encodeURIComponent\<close>; on the left of the sum is the message of
  the \<open>SyntaxError\<close> or \<open>URIError\<close> they throw. The preferences are read as they stand
  when the operation starts. The calls to \<open>debug\<close> only write to the log and are left out.
\<close>

record xhr =
  status :: nat
  responseText :: jsstring
  response :: jsvalue

text \<open>
  The promise of \<open>Zotero.HTTP.request\<close>: resolved with the request object, rejected with an
  exception that carries it (\<open>e.xmlhttp\<close>), or rejected with anything else, of which only
  \<open>e.message || String(e)\<close> is read.
\<close>

datatype http_outcome =
    Resolved xhr
  | RejectedWithXhr xhr
  | Rejected jsstring

text \<open>
  A request as it is handed to \<open>Zotero.HTTP.request\<close>; \<open>body\<close> is the object whose
  \<open>JSON.stringify\<close> text is sent.
\<close>

record http_request =
  httpMethod :: string
  url :: jsstring
  headers :: "(string \<times> jsstring) list"
  body :: jsvalue
  responseType :: string

record env =
  Prefs_get :: "string \<Rightarrow> jsstring option"
  HTTP_request :: "http_request list \<Rightarrow> http_request \<Rightarrow> http_outcome"
  JSON_parse :: "jsstring \<Rightarrow> jsstring + jsvalue"
  JSON_stringify :: "jsvalue \<Rightarrow> jsstring"
  encodeURIComponent :: "jsstring \<Rightarrow> jsstring + jsstring"
  TypeError_message :: "type_error_site \<Rightarrow> jsstring"

section \<open>Configuration\<close>

definition PREF_PREFIX :: string where
  "PREF_PREFIX = ''extensions.vibe-zotero-translate''"

record TranslationInput =
  text' :: jsstring
  pageScreenshot :: "jsstring option"
  pageNumber :: "int option"

definition getStringPref :: "env \<Rightarrow> string \<Rightarrow> jsstring \<Rightarrow> jsstring" where
  "getStringPref E key defaultValue =
     (case Prefs_get E (PREF_PREFIX @ ''.'' @ key) of
        None \<Rightarrow> defaultValue
      | Some val \<Rightarrow>
          (if val \<noteq> [] \<and> length (js_trim val) > 0 then js_trim val else defaultValue))"

definition isSingleWord :: "jsstring \<Rightarrow> bool" where
  "isSingleWord text =
     (let trimmed = js_trim text in
        \<not> js_includes trimmed (js '' '') \<and>
        \<not> js_includes trimmed (js ''\<newline>'') \<and>
        \<not> js_includes trimmed [0x9])"

record config =
  provider :: jsstring
  apiKey :: jsstring
  modelId :: jsstring
  region :: jsstring
  openaiEndpoint :: jsstring

definition getConfig :: "env \<Rightarrow> js_error + config" where
  "getConfig E =
     (let provider = getStringPref E ''provider'' (js ''bedrock'') in
      if provider = js ''openai'' then
        (let apiKey = getStringPref E ''openai.apiKey'' [];
             modelId = getStringPref E ''openai.modelId'' (js ''gpt-4o'');
             endpoint = getStringPref E ''openai.endpoint''
                          (js ''https://api.openai.com/v1/chat/completions'')
         in if apiKey = [] then
              Inl (Error (js ''OpenAI API key not configured. Please set it in Vibe Translate preferences.''))
            else
              Inr \<lparr>provider = provider, apiKey = apiKey, modelId = modelId, region = [],
                   openaiEndpoint = endpoint\<rparr>)
      else
        (let apiKey = getStringPref E ''bedrock.apiKey'' [];
             modelId = getStringPref E ''bedrock.modelId''
                         (js ''us.anthropic.claude-sonnet-4-5-20250929-v1:0'');
             region = getStringPref E ''bedrock.region'' (js ''us-east-1'')
         in if apiKey = [] then
              Inl (Error (js ''Bedrock API key not configured. Please set it in Vibe Translate preferences.''))
            else
              Inr \<lparr>provider = provider, apiKey = apiKey, modelId = modelId, region = region,
                   openaiEndpoint = []\<rparr>))"

section \<open>Prompt building\<close>

text \<open>
  The repository holds two revisions of the service, which differ in the templates of
  \<open>buildSystemPrompt\<close> only; the templates here are those of the first.
\<close>


definition buildSystemPrompt :: "jsstring \<Rightarrow> bool \<Rightarrow> bool \<Rightarrow> jsstring" where
  "buildSystemPrompt targetLanguage singleWord hasScreenshot =
    (if singleWord \<and> hasScreenshot then
        js ''You are a concise dictionary. Translate the word to '' @
        targetLanguage @
        js ''.\<newline>'' @
        js ''STRICT rules: Only output in the exact format below. No explanations, no examples, no extra text.\<newline>'' @
        js ''Use fixed-width alignment: pad the part-of-speech tag to exactly 6 characters wide.\<newline>'' @
        js ''\<newline>'' @
        js ''Format:\<newline>'' @
        js ''['' @
        [0xCB, 0xD8, 0xE7, 0xCA, 0xC4, 0xDF] @
        js ''  ] '' @
        [0xC2, 0xEA, 0xB4, 0x2030, 0x3C0, 0xE2] @
        js ''\<newline>'' @
        [0xF8FF, 0xFC, 0xEC, 0xE5] @
        js '' '' @
        [0x2030, 0x220F, 0xE4, 0x2030, 0x220F, 0xE3, 0xCA, 0xF1, 0xE1, 0xC2, 0xEA, 0xB4, 0x2030, 0x3C0, 0xE2] @
        js ''\<newline>'' @
        js ''\<newline>'' @
        js ''Example output for '' @
        [0x22] @
        js ''bank'' @
        [0x22] @
        js '':\<newline>'' @
        js ''[n.   ] '' @
        [0xC8, 0xEC, 0x2202, 0xCB, 0xB0, 0xE5] @
        js ''; '' @
        [0xCA, 0x2264, 0x2265, 0xC2, 0x2264, 0x220F] @
        js ''\<newline>'' @
        js ''[v.   ] '' @
        [0xC2, 0x2260, 0xF2, 0xCA, 0xA8, 0xE6] @
        js ''\<newline>'' @
        [0xF8FF, 0xFC, 0xEC, 0xE5] @
        js '' '' @
        [0xCA, 0x2260, 0xA7, 0xC2, 0xA7, 0xD1, 0xCA, 0xE5, 0xE1, 0x22, 0xCA, 0x2264, 0x2265, 0xC2, 0x2264, 0x220F, 0x22]
     else if singleWord \<and> \<not> hasScreenshot then
        js ''You are a concise dictionary. Translate the word to '' @
        targetLanguage @
        js ''.\<newline>'' @
        js ''STRICT rules: Only output in the exact format below. No explanations, no examples, no extra text.\<newline>'' @
        js ''Use fixed-width alignment: pad the part-of-speech tag to exactly 6 characters wide.\<newline>'' @
        js ''\<newline>'' @
        js ''Format:\<newline>'' @
        js ''['' @
        [0xCB, 0xD8, 0xE7, 0xCA, 0xC4, 0xDF] @
        js ''  ] '' @
        [0xC2, 0xEA, 0xB4, 0x2030, 0x3C0, 0xE2] @
        js ''1; '' @
        [0xC2, 0xEA, 0xB4, 0x2030, 0x3C0, 0xE2] @
        js ''2\<newline>'' @
        js ''\<newline>'' @
        js ''Example output for '' @
        [0x22] @
        js ''run'' @
        [0x22] @
        js '':\<newline>'' @
        js ''[v.   ] '' @
        [0xCB, 0x2211, 0xEB] @
        js ''; '' @
        [0xCB, 0xF8, 0xEA, 0xCB, 0xB0, 0xE5] @
        js ''; '' @
        [0xC1, 0xAA, 0xE8, 0xCB, 0xEA, 0x2022] @
        js ''\<newline>'' @
        js ''[n.   ] '' @
        [0xC2, 0x2022, 0xEE, 0xCB, 0x2211, 0xEB] @
        js ''; '' @
        [0xCB, 0xF8, 0xEA, 0xCB, 0x3A9, 0xA8]
     else if \<not> singleWord \<and> hasScreenshot then
        js ''You are a professional translator. Translate the following text to '' @
        targetLanguage @
        js ''.\<newline>'' @
        js ''Use the page screenshot as context to improve accuracy for domain-specific terms.\<newline>'' @
        js ''\<newline>'' @
        js ''Output format example:\<newline>'' @
        [0xCB, 0xF8, 0xF4, 0xCA, 0xF2, 0xD8, 0xC1, 0xF8, 0xAA, 0xCB, 0xD8, 0xEB, 0xC1, 0xAA, 0xEC, 0xCA, 0xFB, 0xFA] @
        js ''\<newline>'' @
        js ''\<newline>'' @
        [0xF8FF, 0xFC, 0xEC, 0xE5] @
        js '' '' @
        [0x22] @
        js ''term'' @
        [0x22] @
        js '' '' @
        [0xC2, 0xFA, 0xAE, 0xCA, 0x2260, 0xA7, 0x2030, 0x220F, 0xE4, 0x2030, 0x220F, 0xE3, 0xCA, 0xF1, 0xE1, 0x2030, 0x220F, 0x2260, 0xCB, 0xD8, 0xEB, 0x2030, 0x220F, 0x222B, 0x22, 0xCA, 0xFA, 0xD8, 0xCB, 0xD8, 0x2260, 0x22]
     else
        js ''You are a professional translator. Translate the following text to '' @
        targetLanguage @
        js ''.\<newline>'' @
        js ''Only output the translation result, nothing else.'')"

section \<open>Bedrock Converse API\<close>

definition isWordChar :: "16 word \<Rightarrow> bool" where
  "isWordChar c =
     ((0x41 \<le> c \<and> c \<le> 0x5A) \<or> (0x61 \<le> c \<and> c \<le> 0x7A) \<or> (0x30 \<le> c \<and> c \<le> 0x39) \<or> c = 0x5F)"

definition isLineTerminator :: "16 word \<Rightarrow> bool" where
  "isLineTerminator c = (c \<in> {0xA, 0xD, 0x2028, 0x2029})"

definition stripPrefix :: "jsstring \<Rightarrow> jsstring \<Rightarrow> jsstring option" where
  "stripPrefix p s = (if prefix p s then Some (drop (length p) s) else None)"

text \<open>
  \<open>pageScreenshot.match(/^data:(image\/\w+);base64,(.+)$/)\<close>, giving the two groups. The
  pattern has no flags, so \<open>^\<close> and \<open>$\<close> are the ends of the string, \<open>\w\<close> is
  \<open>[A-Za-z0-9_]\<close> and \<open>.\<close> is any code unit but a line terminator. The unit after group 1
  must be \<open>;\<close>, which is no word character, so group 1 ends where the run of word
  characters ends; group 2 is the whole rest.
\<close>

definition matchDataUrl :: "jsstring \<Rightarrow> (jsstring \<times> jsstring) option" where
  "matchDataUrl s =
     (case stripPrefix (js ''data:image/'') s of
        None \<Rightarrow> None
      | Some r \<Rightarrow>
          (let w = takeWhile isWordChar r in
           if w = [] then None
           else (case stripPrefix (js '';base64,'') (dropWhile isWordChar r) of
                   None \<Rightarrow> None
                 | Some d \<Rightarrow>
                     (if d \<noteq> [] \<and> list_all (\<lambda>c. \<not> isLineTerminator c) d
                      then Some (js ''image/'' @ w, d) else None))))"

text \<open>\<open>xs[i]\<close> on an array of strings: \<open>undefined\<close> out of range.\<close>

definition js_index :: "jsstring list \<Rightarrow> nat \<Rightarrow> jsvalue" where
  "js_index xs i = (if i < length xs then JStr (xs ! i) else JUndefined)"

definition buildBedrockBody :: "jsstring \<Rightarrow> jsstring \<Rightarrow> jsstring option \<Rightarrow> jsvalue" where
  "buildBedrockBody systemPrompt userText pageScreenshot' =
     (let userContent = [JObj [(js ''text'', JStr userText)]];
          userContent =
            (case pageScreenshot' of
               None \<Rightarrow> userContent
             | Some shot \<Rightarrow>
                 (if shot = [] then userContent
                  else (case matchDataUrl shot of
                          None \<Rightarrow> userContent
                        | Some (g1, g2) \<Rightarrow>
                            (let format = js_index (js_split 0x2F g1) 1;
                                 base64Data = g2
                             in userContent @
                                  [JObj [(js ''image'',
                                     JObj [(js ''format'', format),
                                           (js ''source'', JObj [(js ''bytes'', JStr base64Data)])])]]))))
      in JObj [(js ''system'', JArr [JObj [(js ''text'', JStr systemPrompt)]]),
               (js ''messages'',
                  JArr [JObj [(js ''role'', JStr (js ''user'')), (js ''content'', JArr userContent)]]),
               (js ''inferenceConfig'',
                  JObj [(js ''maxTokens'', JNum (js ''4096'')),
                        (js ''temperature'', JNum (js ''0.1''))])])"

text \<open>\<open>JSON.parse(xhr.response)\<close>\<close>

definition parseResponse :: "env \<Rightarrow> jsstring \<Rightarrow> js_error + jsvalue" where
  "parseResponse E s = (case JSON_parse E s of Inl m \<Rightarrow> Inl (SyntaxError m) | Inr v \<Rightarrow> Inr v)"

text \<open>
  \<open>content.filter((part) => part.text)\<close>: reading \<open>text\<close> of a \<open>null\<close> part throws, which
  ends the whole call.
\<close>

fun filterTextParts :: "env \<Rightarrow> jsvalue list \<Rightarrow> js_error + jsvalue list" where
  "filterTextParts E [] = Inr []"
| "filterTextParts E (part # parts) =
     (if part = JNull \<or> part = JUndefined then Inl (TypeError (TypeError_message E PartIsNull))
      else (case filterTextParts E parts of
              Inl e \<Rightarrow> Inl e
            | Inr kept \<Rightarrow> Inr (if truthy (getProp part (js ''text'')) then part # kept else kept)))"

text \<open>The part of \<open>callBedrock\<close> that runs once the request has settled.\<close>

definition callBedrock_settled :: "env \<Rightarrow> http_outcome \<Rightarrow> js_error + jsvalue" where
  "callBedrock_settled E outcome =
     (case outcome of
        RejectedWithXhr x \<Rightarrow>
          Inl (Error (js ''Bedrock API error ('' @ showNat (status x) @ js ''): '' @
                      js_substring (responseText x) 0 500))
      | Rejected msg \<Rightarrow> Inl (Error (js ''HTTP request failed: '' @ msg))
      | Resolved x \<Rightarrow>
          (if status x \<noteq> 200 then
             (let errText = (if responseText x \<noteq> [] then JStr (responseText x)
                             else if truthy (response x) then response x else JStr [])
              in case js_String (TypeError_message E) errText of
                   Inl e \<Rightarrow> Inl e
                 | Inr t \<Rightarrow>
                     Inl (Error (js ''Bedrock API error ('' @ showNat (status x) @ js ''): '' @
                                 js_substring t 0 500)))
           else
             (case (case response x of JStr s \<Rightarrow> parseResponse E s | v \<Rightarrow> Inr v) of
                Inl e \<Rightarrow> Inl e
              | Inr resp \<Rightarrow>
                  (let content =
                         optProp (optProp (optProp resp (js ''output'')) (js ''message''))
                           (js ''content'')
                   in if truthy content then
                        (case content of
                           JArr parts \<Rightarrow>
                             (case filterTextParts E parts of
                                Inl e \<Rightarrow> Inl e
                              | Inr kept \<Rightarrow>
                                  (case js_join (TypeError_message E) (js ''\<newline>'')
                                          (map (\<lambda>part. getProp part (js ''text'')) kept) of
                                     Inl e \<Rightarrow> Inl e
                                   | Inr joined \<Rightarrow> Inr (JStr joined)))
                         | _ \<Rightarrow> Inl (TypeError (TypeError_message E ContentFilterNotAFunction)))
                      else
                        Inl (Error (js ''Unexpected Bedrock response: '' @ JSON_stringify E resp))))))"

text \<open>
  \<open>callBedrock\<close>, with the requests issued so far passed in and returned. The request is
  appended whether it is answered or not.
\<close>

definition callBedrock ::
  "env \<Rightarrow> http_request list \<Rightarrow> jsstring \<Rightarrow> jsvalue \<Rightarrow> (js_error + jsvalue) \<times> http_request list"
where
  "callBedrock E log modelId' requestBody =
     (case getConfig E of
        Inl e \<Rightarrow> (Inl e, log)
      | Inr cfg \<Rightarrow>
          (case encodeURIComponent E modelId' of
             Inl m \<Rightarrow> (Inl (URIError m), log)
           | Inr encoded \<Rightarrow>
               (let url = js ''https://bedrock-runtime.'' @ region cfg @
                          js ''.amazonaws.com/model/'' @ encoded @ js ''/converse'';
                    body = requestBody;
                    req = \<lparr>httpMethod = ''POST'', url = url,
                           headers = [(''Content-Type'', js ''application/json''),
                                      (''Authorization'', js ''Bearer '' @ apiKey cfg)],
                           body = body, responseType = ''text''\<rparr>
                in (callBedrock_settled E (HTTP_request E log req), log @ [req]))))"

section \<open>OpenAI-compatible API\<close>

definition buildOpenAIBody :: "jsstring \<Rightarrow> jsstring \<Rightarrow> jsstring option \<Rightarrow> jsstring \<Rightarrow> jsvalue" where
  "buildOpenAIBody systemPrompt userText pageScreenshot' modelId' =
     (let userContent = [JObj [(js ''type'', JStr (js ''text'')), (js ''text'', JStr userText)]];
          userContent =
            (case pageScreenshot' of
               None \<Rightarrow> userContent
             | Some shot \<Rightarrow>
                 (if shot = [] then userContent
                  else userContent @
                         [JObj [(js ''type'', JStr (js ''image_url'')),
                                (js ''image_url'', JObj [(js ''url'', JStr shot)])]]))
      in JObj [(js ''model'', JStr modelId'),
               (js ''messages'',
                  JArr [JObj [(js ''role'', JStr (js ''system'')), (js ''content'', JStr systemPrompt)],
                        JObj [(js ''role'', JStr (js ''user'')), (js ''content'', JArr userContent)]]),
               (js ''max_tokens'', JNum (js ''4096'')),
               (js ''temperature'', JNum (js ''0.1''))])"

text \<open>
  \<open>openaiEndpoint.replace(/\/+$/, "")\<close>: the first match of the pattern starts where the
  last run of slashes starts, so the whole run at the end is removed.
\<close>

definition stripTrailingSlashes :: "jsstring \<Rightarrow> jsstring" where
  "stripTrailingSlashes s = rev (dropWhile (\<lambda>c. c = 0x2F) (rev s))"

text \<open>The endpoint normalisation at the head of \<open>callOpenAI\<close>.\<close>

definition normalizeEndpoint :: "jsstring \<Rightarrow> jsstring" where
  "normalizeEndpoint openaiEndpoint' =
     (let url = stripTrailingSlashes openaiEndpoint' in
      if \<not> js_endsWith url (js ''/chat/completions'') then url @ js ''/chat/completions''
      else url)"

text \<open>The part of \<open>callOpenAI\<close> that runs once the request has settled.\<close>

definition callOpenAI_settled :: "env \<Rightarrow> http_outcome \<Rightarrow> js_error + jsvalue" where
  "callOpenAI_settled E outcome =
     (case outcome of
        RejectedWithXhr x \<Rightarrow>
          Inl (Error (js ''OpenAI API error ('' @ showNat (status x) @ js ''): '' @
                      js_substring (responseText x) 0 500))
      | Rejected msg \<Rightarrow> Inl (Error (js ''HTTP request failed: '' @ msg))
      | Resolved x \<Rightarrow>
          (if status x \<noteq> 200 then
             (let errText = (if responseText x \<noteq> [] then JStr (responseText x)
                             else if truthy (response x) then response x else JStr [])
              in case js_String (TypeError_message E) errText of
                   Inl e \<Rightarrow> Inl e
                 | Inr t \<Rightarrow>
                     Inl (Error (js ''OpenAI API error ('' @ showNat (status x) @ js ''): '' @
                                 js_substring t 0 500)))
           else
             (case (case response x of JStr s \<Rightarrow> parseResponse E s | v \<Rightarrow> Inr v) of
                Inl e \<Rightarrow> Inl e
              | Inr resp \<Rightarrow>
                  (let content =
                         optProp (optProp (optIndex0 (optProp resp (js ''choices'')))
                                    (js ''message'')) (js ''content'')
                   in if truthy content then Inr content
                      else
                        Inl (Error (js ''Unexpected OpenAI response: '' @ JSON_stringify E resp))))))"

definition callOpenAI ::
  "env \<Rightarrow> http_request list \<Rightarrow> jsstring \<Rightarrow> jsvalue \<Rightarrow> (js_error + jsvalue) \<times> http_request list"
where
  "callOpenAI E log modelId' requestBody =
     (case getConfig E of
        Inl e \<Rightarrow> (Inl e, log)
      | Inr cfg \<Rightarrow>
          (let url = normalizeEndpoint (openaiEndpoint cfg);
               body = requestBody;
               req = \<lparr>httpMethod = ''POST'', url = url,
                      headers = [(''Content-Type'', js ''application/json''),
                                 (''Authorization'', js ''Bearer '' @ apiKey cfg)],
                      body = body, responseType = ''text''\<rparr>
           in (callOpenAI_settled E (HTTP_request E log req), log @ [req])))"

section \<open>Unified translation\<close>

definition callModel ::
  "env \<Rightarrow> http_request list \<Rightarrow> jsstring \<Rightarrow> jsstring \<Rightarrow> jsstring option
     \<Rightarrow> (js_error + jsvalue) \<times> http_request list"
where
  "callModel E log systemPrompt userText pageScreenshot' =
     (case getConfig E of
        Inl e \<Rightarrow> (Inl e, log)
      | Inr cfg \<Rightarrow>
          (if provider cfg = js ''openai'' then
             callOpenAI E log (modelId cfg)
               (buildOpenAIBody systemPrompt userText pageScreenshot' (modelId cfg))
           else
             callBedrock E log (modelId cfg)
               (buildBedrockBody systemPrompt userText pageScreenshot')))"

text \<open>\<open>result.trim()\<close>: only a string has the method.\<close>

definition result_trim :: "env \<Rightarrow> jsvalue \<Rightarrow> js_error + jsstring" where
  "result_trim E result =
     (case result of
        JStr s \<Rightarrow> Inr (js_trim s)
      | _ \<Rightarrow> Inl (TypeError (TypeError_message E ResultTrimNotAFunction)))"

text \<open>\<open>!!input.pageScreenshot\<close>\<close>

definition hasScreenshot :: "TranslationInput \<Rightarrow> bool" where
  "hasScreenshot input = (case pageScreenshot input of None \<Rightarrow> False | Some shot \<Rightarrow> shot \<noteq> [])"

text \<open>
  \<open>translateText\<close>, started with no request issued; it returns its result or the error it
  rejects with, and the requests it has issued. The \<open>try\<close> block covers the first call and
  the trimming of its result.
\<close>

definition translateText :: "env \<Rightarrow> TranslationInput \<Rightarrow> (js_error + jsstring) \<times> http_request list" where
  "translateText E input =
     (let targetLanguage = getStringPref E ''targetLanguage'' (js ''zh-CN'');
          singleWord = isSingleWord (text' input);
          hasShot = hasScreenshot input
      in case getConfig E of
           Inl e \<Rightarrow> (Inl e, [])
         | Inr cfg \<Rightarrow>
             (let systemPrompt = buildSystemPrompt targetLanguage singleWord hasShot;
                  userText = (if singleWord then js ''Word: '' @ text' input
                              else js ''Text: '' @ text' input)
              in case callModel E [] systemPrompt userText
                        (if hasShot then pageScreenshot input else None) of
                   (r, log) \<Rightarrow>
                     (case (case r of Inl e \<Rightarrow> Inl e | Inr result \<Rightarrow> result_trim E result) of
                        Inr trimmed \<Rightarrow> (Inr trimmed, log)
                      | Inl e \<Rightarrow>
                          (let errMsg = errorMessage e in
                           if hasShot \<and> (js_includes errMsg (js ''image'') \<or>
                                          js_includes errMsg (js ''Image'')) then
                             (let fallbackPrompt = buildSystemPrompt targetLanguage singleWord False
                              in case callModel E log fallbackPrompt userText None of
                                   (r2, log2) \<Rightarrow>
                                     ((case r2 of Inl e2 \<Rightarrow> Inl e2
                                       | Inr result \<Rightarrow> result_trim E result), log2))
                           else (Inl e, log)))))"

definition testConnection :: "env \<Rightarrow> (js_error + jsvalue) \<times> http_request list" where
  "testConnection E =
     (case getConfig E of
        Inl e \<Rightarrow> (Inl e, [])
      | Inr cfg \<Rightarrow>
          (let systemPrompt = js ''You are a helpful assistant. Reply in one short sentence.'';
               userText = js ''Say hello and confirm you are working.''
           in callModel E [] systemPrompt userText None))"


section \<open>Notions of the specification\<close>

text \<open>Comparison that ignores the case of ASCII letters.\<close>

definition asciiLower :: "16 word \<Rightarrow> 16 word" where
  "asciiLower c = (if 0x41 \<le> c \<and> c \<le> 0x5A then c + 0x20 else c)"

definition includesIgnoringCase :: "jsstring \<Rightarrow> jsstring \<Rightarrow> bool" where
  "includesIgnoringCase hay needle = js_includes (map asciiLower hay) (map asciiLower needle)"

text \<open>
  A data URI \<open>data:image/<fmt>;base64,<data>\<close>, and the ones among them that the pattern
  of \<open>buildBedrockBody\<close> accepts: a format of one or more word characters and data of one
  or more code units, none a line terminator.
\<close>

definition dataUri :: "jsstring \<Rightarrow> jsstring \<Rightarrow> jsstring" where
  "dataUri fmt dat = js ''data:image/'' @ fmt @ js '';base64,'' @ dat"

definition acceptedParts :: "jsstring \<Rightarrow> jsstring \<Rightarrow> bool" where
  "acceptedParts fmt dat =
     (fmt \<noteq> [] \<and> list_all isWordChar fmt \<and> dat \<noteq> [] \<and> list_all (\<lambda>c. \<not> isLineTerminator c) dat)"

definition matchesDataUriPattern :: "jsstring \<Rightarrow> bool" where
  "matchesDataUriPattern s = (\<exists>fmt dat. s = dataUri fmt dat \<and> acceptedParts fmt dat)"

text \<open>The API key that \<open>getConfig\<close> reads for the active provider.\<close>

definition resolvedProvider :: "env \<Rightarrow> jsstring" where
  "resolvedProvider E = getStringPref E ''provider'' (js ''bedrock'')"

definition resolvedApiKey :: "env \<Rightarrow> jsstring" where
  "resolvedApiKey E =
     (if resolvedProvider E = js ''openai'' then getStringPref E ''openai.apiKey'' []
      else getStringPref E ''bedrock.apiKey'' [])"

text \<open>A preference that is unset or blank, so that its default applies.\<close>

definition prefBlank :: "env \<Rightarrow> string \<Rightarrow> bool" where
  "prefBlank E key =
     (case Prefs_get E (PREF_PREFIX @ ''.'' @ key) of None \<Rightarrow> True | Some v \<Rightarrow> js_trim v = [])"

text \<open>The message of the error that both callers raise for a response they do not accept.\<close>

definition httpErrorMessage :: "string \<Rightarrow> nat \<Rightarrow> jsstring \<Rightarrow> jsstring" where
  "httpErrorMessage api st responseBody =
     js api @ js '' API error ('' @ showNat st @ js ''): '' @ take 500 responseBody"

text \<open>The value of the \<open>provider\<close> preference after trimming, when one is stored.\<close>

definition providerPrefTrimmed :: "env \<Rightarrow> jsstring option" where
  "providerPrefTrimmed E = map_option js_trim (Prefs_get E (PREF_PREFIX @ ''.'' @ ''provider''))"

text \<open>
  What \<open>translateText\<close> passes to the model, its first call, the call it makes when it
  falls back, given the requests issued before, and the trimming of a call's result.
\<close>

definition targetLanguageOf :: "env \<Rightarrow> jsstring" where
  "targetLanguageOf E = getStringPref E ''targetLanguage'' (js ''zh-CN'')"

definition userTextOf :: "TranslationInput \<Rightarrow> jsstring" where
  "userTextOf input =
     (if isSingleWord (text' input) then js ''Word: '' @ text' input else js ''Text: '' @ text' input)"

definition firstCall :: "env \<Rightarrow> TranslationInput \<Rightarrow> (js_error + jsvalue) \<times> http_request list" where
  "firstCall E input =
     callModel E []
       (buildSystemPrompt (targetLanguageOf E) (isSingleWord (text' input)) (hasScreenshot input))
       (userTextOf input)
       (if hasScreenshot input then pageScreenshot input else None)"

definition fallbackCall ::
  "env \<Rightarrow> TranslationInput \<Rightarrow> http_request list \<Rightarrow> (js_error + jsvalue) \<times> http_request list" where
  "fallbackCall E input log =
     callModel E log
       (buildSystemPrompt (targetLanguageOf E) (isSingleWord (text' input)) False)
       (userTextOf input) None"

definition trimmedResult :: "env \<Rightarrow> js_error + jsvalue \<Rightarrow> js_error + jsstring" where
  "trimmedResult E r = (case r of Inl e \<Rightarrow> Inl e | Inr result \<Rightarrow> result_trim E result)"

text \<open>The requests that the two callers issue, for a configuration and a body.\<close>

definition bedrockRequest :: "config \<Rightarrow> jsstring \<Rightarrow> jsvalue \<Rightarrow> http_request" where
  "bedrockRequest cfg encodedModelId requestBody =
     \<lparr>httpMethod = ''POST'',
      url = js ''https://bedrock-runtime.'' @ region cfg @ js ''.amazonaws.com/model/'' @
            encodedModelId @ js ''/converse'',
      headers = [(''Content-Type'', js ''application/json''),
                 (''Authorization'', js ''Bearer '' @ apiKey cfg)],
      body = requestBody, responseType = ''text''\<rparr>"

definition openaiRequest :: "config \<Rightarrow> jsvalue \<Rightarrow> http_request" where
  "openaiRequest cfg requestBody =
     \<lparr>httpMethod = ''POST'', url = normalizeEndpoint (openaiEndpoint cfg),
      headers = [(''Content-Type'', js ''application/json''),
                 (''Authorization'', js ''Bearer '' @ apiKey cfg)],
      body = requestBody, responseType = ''text''\<rparr>"

text \<open>The test that \<open>translateText\<close> makes on the message of a caught error.\<close>

definition namesImage :: "js_error \<Rightarrow> bool" where
  "namesImage e =
     (js_includes (errorMessage e) (js ''image'') \<or> js_includes (errorMessage e) (js ''Image''))"

section \<open>Example environments\<close>

text \<open>
  Hosts for the concrete runs below. Their \<open>encodeURIComponent\<close> is the identity, which is
  what the built-in does on the model id they configure, and their \<open>JSON.parse\<close> knows the
  two response texts they serve.
\<close>

definition openaiReplyText :: jsstring where
  "openaiReplyText =
     js ''{'' @ [0x22] @ js ''choices'' @ [0x22] @ js '':[{'' @ [0x22] @ js ''message'' @ [0x22] @
     js '':{'' @ [0x22] @ js ''content'' @ [0x22] @ js '':'' @ [0x22] @ js '' hi '' @ [0x22] @ js ''}}]}''"

definition openaiReply :: jsvalue where
  "openaiReply =
     JObj [(js ''choices'', JArr [JObj [(js ''message'', JObj [(js ''content'', JStr (js '' hi ''))])]])]"

definition bedrockReplyText :: jsstring where
  "bedrockReplyText =
     js ''{'' @ [0x22] @ js ''output'' @ [0x22] @ js '':{'' @ [0x22] @ js ''message'' @ [0x22] @
     js '':{'' @ [0x22] @ js ''content'' @ [0x22] @ js '':[{'' @ [0x22] @ js ''text'' @ [0x22] @
     js '':'' @ [0x22] @ js ''ok'' @ [0x22] @ js ''}]}}}''"

definition bedrockReply :: jsvalue where
  "bedrockReply =
     JObj [(js ''output'',
       JObj [(js ''message'', JObj [(js ''content'', JArr [JObj [(js ''text'', JStr (js ''ok''))]])])])]"

definition exampleParse :: "jsstring \<Rightarrow> jsstring + jsvalue" where
  "exampleParse s =
     (if s = openaiReplyText then Inr openaiReply
      else if s = bedrockReplyText then Inr bedrockReply
      else Inl (js ''JSON.parse: unexpected character''))"

definition exampleTypeError :: "type_error_site \<Rightarrow> jsstring" where
  "exampleTypeError site =
     (case site of
        ContentFilterNotAFunction \<Rightarrow> js ''response.output.message.content.filter is not a function''
      | PartIsNull \<Rightarrow> js ''part is null''
      | CannotConvertToPrimitive \<Rightarrow> js ''cannot convert object to primitive value''
      | ResultTrimNotAFunction \<Rightarrow> js ''result.trim is not a function'')"

definition exampleEnv ::
  "(string \<times> jsstring) list \<Rightarrow> (http_request list \<Rightarrow> http_request \<Rightarrow> http_outcome) \<Rightarrow> env" where
  "exampleEnv prefs server =
     \<lparr>Prefs_get = map_of prefs, HTTP_request = server, JSON_parse = exampleParse,
      JSON_stringify = (\<lambda>v. js ''{}''), encodeURIComponent = Inr,
      TypeError_message = exampleTypeError\<rparr>"

definition bedrockPrefs :: "(string \<times> jsstring) list" where
  "bedrockPrefs =
     [(''extensions.vibe-zotero-translate.bedrock.apiKey'', js ''key-1''),
      (''extensions.vibe-zotero-translate.bedrock.modelId'', js ''model-1'')]"

definition bedrockExampleConfig :: config where
  "bedrockExampleConfig =
     \<lparr>provider = js ''bedrock'', apiKey = js ''key-1'', modelId = js ''model-1'',
      region = js ''us-east-1'', openaiEndpoint = []\<rparr>"

definition openaiPrefs :: "(string \<times> jsstring) list" where
  "openaiPrefs =
     [(''extensions.vibe-zotero-translate.provider'', js ''openai''),
      (''extensions.vibe-zotero-translate.openai.apiKey'', js ''key-1'')]"

definition googlePrefs :: "(string \<times> jsstring) list" where
  "googlePrefs =
     [(''extensions.vibe-zotero-translate.provider'', js ''google''),
      (''extensions.vibe-zotero-translate.bedrock.apiKey'', js ''key-1''),
      (''extensions.vibe-zotero-translate.bedrock.modelId'', js ''model-1'')]"

definition paddedOpenaiPrefs :: "(string \<times> jsstring) list" where
  "paddedOpenaiPrefs =
     [(''extensions.vibe-zotero-translate.provider'', js ''openai ''),
      (''extensions.vibe-zotero-translate.openai.apiKey'', js ''key-1'')]"

definition textResponse :: "nat \<Rightarrow> jsstring \<Rightarrow> xhr" where
  "textResponse st t = \<lparr>status = st, responseText = t, response = JStr t\<rparr>"

definition replyingServer :: "nat \<Rightarrow> jsstring \<Rightarrow> http_request list \<Rightarrow> http_request \<Rightarrow> http_outcome" where
  "replyingServer st t log req = Resolved (textResponse st t)"

text \<open>A server that refuses the image of the first request and answers the second.\<close>

definition imageRefusingServer :: "jsstring \<Rightarrow> http_request list \<Rightarrow> http_request \<Rightarrow> http_outcome" where
  "imageRefusingServer refusal log req =
     (if log = [] then RejectedWithXhr (textResponse 400 refusal)
      else Resolved (textResponse 200 bedrockReplyText))"

definition pngInput :: TranslationInput where
  "pngInput = \<lparr>text' = js ''run'', pageScreenshot = Some (dataUri (js ''png'') (js ''AAAA'')),
               pageNumber = Some 1\<rparr>"

definition plainInput :: TranslationInput where
  "plainInput = \<lparr>text' = js ''run'', pageScreenshot = None, pageNumber = None\<rparr>"


section \<open>Strings\<close>

text \<open>
  The search of \<open>includes\<close> finds exactly the contiguous occurrences, trimming is
  idempotent, and \<open>endsWith\<close> is the suffix relation.
\<close>

lemma js_includes_iff: "js_includes hay needle \<longleftrightarrow> (\<exists>p s. hay = p @ needle @ s)"
proof (induction hay)
  case Nil
  then show ?case by auto
next
  case (Cons c cs)
  show ?case
  proof
    assume "js_includes (c # cs) needle"
    then consider "prefix needle (c # cs)" | "js_includes cs needle" by auto
    then show "\<exists>p s. c # cs = p @ needle @ s"
    proof cases
      case 1
      then obtain s where "c # cs = needle @ s" by (auto simp: prefix_def)
      then have "c # cs = [] @ needle @ s" by simp
      then show ?thesis by blast
    next
      case 2
      with Cons.IH obtain p s where "cs = p @ needle @ s" by blast
      then have "c # cs = (c # p) @ needle @ s" by simp
      then show ?thesis by blast
    qed
  next
    assume "\<exists>p s. c # cs = p @ needle @ s"
    then obtain p s where ps: "c # cs = p @ needle @ s" by blast
    show "js_includes (c # cs) needle"
    proof (cases p)
      case Nil
      with ps have "prefix needle (c # cs)" by (simp add: prefix_def)
      then show ?thesis by simp
    next
      case (Cons a p')
      with ps have "cs = p' @ needle @ s" by simp
      with Cons.IH have "js_includes cs needle" by blast
      then show ?thesis by simp
    qed
  qed
qed

lemma js_includes_single: "js_includes hay [c] \<longleftrightarrow> c \<in> set hay"
  by (induction hay) auto

lemma js_includes_map:
  assumes "js_includes hay needle"
  shows "js_includes (map f hay) (map f needle)"
proof -
  from assms obtain p s where "hay = p @ needle @ s" by (auto simp: js_includes_iff)
  then have "map f hay = map f p @ map f needle @ map f s" by simp
  then show ?thesis unfolding js_includes_iff by blast
qed

lemma rev_dropWhile_rev_prefix: "\<exists>zs. xs = rev (dropWhile P (rev xs)) @ zs"
proof -
  have "rev xs = takeWhile P (rev xs) @ dropWhile P (rev xs)" by simp
  then have "xs = rev (takeWhile P (rev xs) @ dropWhile P (rev xs))" by (metis rev_rev_ident)
  then show ?thesis by (metis rev_append)
qed

lemma dropWhile_fixed: "xs = [] \<or> \<not> P (hd xs) \<Longrightarrow> dropWhile P xs = xs"
  by (cases xs) auto

lemma hd_dropWhile_not: "dropWhile P xs = [] \<or> \<not> P (hd (dropWhile P xs))"
  by (metis hd_dropWhile)

lemma js_trim_idem: "js_trim (js_trim s) = js_trim s"
proof -
  define t where "t = dropWhile isWhiteSpace s"
  define u where "u = rev (dropWhile isWhiteSpace (rev t))"
  have t: "t = [] \<or> \<not> isWhiteSpace (hd t)" unfolding t_def by (rule hd_dropWhile_not)
  obtain zs where zs: "t = u @ zs" unfolding u_def using rev_dropWhile_rev_prefix by blast
  have "u = [] \<or> \<not> isWhiteSpace (hd u)"
  proof (cases u)
    case Nil then show ?thesis by simp
  next
    case (Cons a u')
    with zs t show ?thesis by auto
  qed
  then have 1: "dropWhile isWhiteSpace u = u" by (rule dropWhile_fixed)
  have 2: "dropWhile isWhiteSpace (rev u) = rev u" by (simp add: u_def)
  have "js_trim s = u" by (simp add: js_trim_def t_def u_def)
  moreover have "js_trim u = u" by (simp add: js_trim_def 1 2)
  ultimately show ?thesis by simp
qed

lemma js_endsWith_iff: "js_endsWith s t \<longleftrightarrow> (\<exists>z. s = z @ t)"
  by (simp add: js_endsWith_def suffix_to_prefix [symmetric] suffix_def)

text \<open>
  Claim C7. \<open>isSingleWord\<close> holds exactly when the trimmed input has no space, tab or
  newline; it holds of \<open>hello\<close> and of \<open>solo\<close> with blanks around it, and not of
  \<open>hello world\<close> nor of two lines.
\<close>

theorem isSingleWord_iff:
  "(isSingleWord s \<longleftrightarrow>
      0x20 \<notin> set (js_trim s) \<and> 0x9 \<notin> set (js_trim s) \<and> 0xA \<notin> set (js_trim s))
   \<and> isSingleWord (js ''hello'')
   \<and> \<not> isSingleWord (js ''hello world'')
   \<and> \<not> isSingleWord (js ''line1\<newline>line2'')
   \<and> isSingleWord (js ''  solo  '')"
proof -
  have sp: "js '' '' = [0x20]" and nl: "js ''\<newline>'' = [0xA]" by (simp_all add: js_def)
  have 1: "isSingleWord s \<longleftrightarrow>
      0x20 \<notin> set (js_trim s) \<and> 0x9 \<notin> set (js_trim s) \<and> 0xA \<notin> set (js_trim s)"
    by (auto simp: isSingleWord_def Let_def sp nl js_includes_single)
  have 2: "isSingleWord (js ''hello'')"
    by (simp add: isSingleWord_def js_trim_def isWhiteSpace_def js_def)
  have 3: "\<not> isSingleWord (js ''hello world'')"
    by (simp add: isSingleWord_def js_trim_def isWhiteSpace_def js_def)
  have 4: "\<not> isSingleWord (js ''line1\<newline>line2'')"
    by (simp add: isSingleWord_def js_trim_def isWhiteSpace_def js_def)
  have 5: "isSingleWord (js ''  solo  '')"
    by (simp add: isSingleWord_def js_trim_def isWhiteSpace_def js_def)
  from 1 2 3 4 5 show ?thesis by simp
qed

section \<open>Endpoint normalisation\<close>

lemma stripTrailingSlashes_fixed: "s = [] \<or> last s \<noteq> 0x2F \<Longrightarrow> stripTrailingSlashes s = s"
proof -
  assume a: "s = [] \<or> last s \<noteq> 0x2F"
  have "dropWhile (\<lambda>c. c = 0x2F) (rev s) = rev s"
    by (rule dropWhile_fixed) (use a in \<open>auto simp: hd_rev\<close>)
  then show ?thesis by (simp add: stripTrailingSlashes_def)
qed

lemma normalizeEndpoint_suffix: "\<exists>z. normalizeEndpoint e = z @ js ''/chat/completions''"
  by (auto simp: normalizeEndpoint_def Let_def js_endsWith_iff)

text \<open>
  Claim C4. The endpoint normalisation of \<open>callOpenAI\<close> is idempotent, and the base URL,
  the base URL with a trailing slash and the full endpoint of the OpenAI API all normalise
  to the full endpoint.
\<close>

theorem normalizeEndpoint_idempotent:
  "normalizeEndpoint (normalizeEndpoint e) = normalizeEndpoint e
   \<and> normalizeEndpoint (js ''https://api.openai.com/v1'') = js ''https://api.openai.com/v1/chat/completions''
   \<and> normalizeEndpoint (js ''https://api.openai.com/v1/'') = js ''https://api.openai.com/v1/chat/completions''
   \<and> normalizeEndpoint (js ''https://api.openai.com/v1/chat/completions'') = js ''https://api.openai.com/v1/chat/completions''"
proof -
  obtain z where z: "normalizeEndpoint e = z @ js ''/chat/completions''"
    using normalizeEndpoint_suffix by blast
  have "last (normalizeEndpoint e) \<noteq> 0x2F" unfolding z by (simp add: js_def)
  then have "stripTrailingSlashes (normalizeEndpoint e) = normalizeEndpoint e"
    by (simp add: stripTrailingSlashes_fixed)
  moreover have "js_endsWith (normalizeEndpoint e) (js ''/chat/completions'')"
    using z by (auto simp: js_endsWith_iff)
  ultimately have 1: "normalizeEndpoint (normalizeEndpoint e) = normalizeEndpoint e"
    by (simp add: normalizeEndpoint_def [of "normalizeEndpoint e"])
  have 2: "normalizeEndpoint (js ''https://api.openai.com/v1'') = js ''https://api.openai.com/v1/chat/completions''"
    by (simp add: normalizeEndpoint_def stripTrailingSlashes_def js_endsWith_def js_def)
  have 3: "normalizeEndpoint (js ''https://api.openai.com/v1/'') = js ''https://api.openai.com/v1/chat/completions''"
    by (simp add: normalizeEndpoint_def stripTrailingSlashes_def js_endsWith_def js_def)
  have 4: "normalizeEndpoint (js ''https://api.openai.com/v1/chat/completions'') = js ''https://api.openai.com/v1/chat/completions''"
    by (simp add: normalizeEndpoint_def stripTrailingSlashes_def js_endsWith_def js_def)
  from 1 2 3 4 show ?thesis by simp
qed

lemma normalize_default:
  "normalizeEndpoint (js ''https://api.openai.com/v1/chat/completions'') =
     js ''https://api.openai.com/v1/chat/completions''"
  by (simp add: normalizeEndpoint_def stripTrailingSlashes_def js_endsWith_def js_def)

section \<open>Request bodies\<close>

text \<open>
  The match of the data-URI pattern, characterised: it succeeds exactly on the strings
  \<open>data:image/<fmt>;base64,<data>\<close> with accepted parts, and then its groups are
  \<open>image/<fmt>\<close> and \<open><data>\<close>.
\<close>

lemma stripPrefix_Some_iff: "stripPrefix p s = Some r \<longleftrightarrow> s = p @ r"
  by (auto simp: stripPrefix_def prefix_def)

lemma stripPrefix_append [simp]: "stripPrefix p (p @ r) = Some r"
  by (simp add: stripPrefix_Some_iff)

lemma semicolon_not_word: "\<not> isWordChar 0x3B"
  by (simp add: isWordChar_def)

lemma slash_not_word: "\<not> isWordChar 0x2F"
  by (simp add: isWordChar_def)

lemma base64_marker: "js '';base64,'' = 0x3B # js ''base64,''"
  by (simp add: js_def)

lemma takeWhile_word_fmt:
  "list_all isWordChar fmt \<Longrightarrow> takeWhile isWordChar (fmt @ js '';base64,'' @ d) = fmt"
  by (induction fmt) (simp_all add: base64_marker semicolon_not_word)

lemma dropWhile_word_fmt:
  "list_all isWordChar fmt \<Longrightarrow>
     dropWhile isWordChar (fmt @ js '';base64,'' @ d) = js '';base64,'' @ d"
  by (induction fmt) (simp_all add: base64_marker semicolon_not_word)

lemma matchDataUrl_accepted:
  assumes "acceptedParts fmt dat"
  shows "matchDataUrl (dataUri fmt dat) = Some (js ''image/'' @ fmt, dat)"
proof -
  from assms have w: "list_all isWordChar fmt" and ne: "fmt \<noteq> []"
    and d: "dat \<noteq> []" "list_all (\<lambda>c. \<not> isLineTerminator c) dat"
    by (simp_all add: acceptedParts_def)
  have "stripPrefix (js ''data:image/'') (dataUri fmt dat) = Some (fmt @ js '';base64,'' @ dat)"
    by (simp add: dataUri_def)
  then show ?thesis
    using ne d by (simp add: matchDataUrl_def takeWhile_word_fmt [OF w] dropWhile_word_fmt [OF w])
qed

lemma matchDataUrl_Some:
  assumes "matchDataUrl s = Some (g1, g2)"
  shows "\<exists>fmt. g1 = js ''image/'' @ fmt \<and> s = dataUri fmt g2 \<and> acceptedParts fmt g2"
proof -
  from assms obtain r where r: "stripPrefix (js ''data:image/'') s = Some r"
    by (auto simp: matchDataUrl_def split: option.splits)
  define w where "w = takeWhile isWordChar r"
  from assms r have ne: "w \<noteq> []"
    by (auto simp: matchDataUrl_def w_def Let_def split: if_splits)
  from assms r ne obtain d where d: "stripPrefix (js '';base64,'') (dropWhile isWordChar r) = Some d"
    by (auto simp: matchDataUrl_def w_def Let_def split: option.splits if_splits)
  from assms r ne d have res: "d \<noteq> []" "list_all (\<lambda>c. \<not> isLineTerminator c) d"
    "g1 = js ''image/'' @ w" "g2 = d"
    by (auto simp: matchDataUrl_def w_def Let_def split: if_splits)
  have "r = w @ dropWhile isWordChar r" by (simp add: w_def)
  also have "dropWhile isWordChar r = js '';base64,'' @ d"
    using d by (simp add: stripPrefix_Some_iff)
  finally have "s = dataUri w d"
    using r by (simp add: stripPrefix_Some_iff dataUri_def)
  moreover have "list_all isWordChar w"
    by (simp add: w_def list_all_iff) (metis set_takeWhileD)
  ultimately show ?thesis
    using res ne by (auto simp: acceptedParts_def)
qed

lemma matchDataUrl_None_iff: "matchDataUrl s = None \<longleftrightarrow> \<not> matchesDataUriPattern s"
proof
  assume "matchDataUrl s = None"
  then show "\<not> matchesDataUriPattern s"
    by (auto simp: matchesDataUriPattern_def matchDataUrl_accepted)
next
  assume n: "\<not> matchesDataUriPattern s"
  show "matchDataUrl s = None"
  proof (cases "matchDataUrl s")
    case None then show ?thesis .
  next
    case (Some g)
    then obtain g1 g2 where "matchDataUrl s = Some (g1, g2)" by (cases g) auto
    from matchDataUrl_Some [OF this] n show ?thesis
      by (auto simp: matchesDataUriPattern_def)
  qed
qed

lemma js_split_no_sep: "sep \<notin> set s \<Longrightarrow> js_split sep s = [s]"
  by (induction s) auto

lemma format_of_group:
  assumes "list_all isWordChar fmt"
  shows "js_index (js_split 0x2F (js ''image/'' @ fmt)) (Suc 0) = JStr fmt"
proof -
  have "0x2F \<notin> set fmt"
    using assms slash_not_word by (auto simp: list_all_iff)
  then have "js_split 0x2F fmt = [fmt]" by (rule js_split_no_sep)
  then have "js_split 0x2F (js ''image/'' @ fmt) = [js ''image'', fmt]"
    by (simp add: js_def)
  then show ?thesis by (simp add: js_index_def)
qed

lemma dataUri_nonempty: "dataUri fmt dat \<noteq> []"
  by (simp add: dataUri_def js_def)

lemma png_accepted: "acceptedParts (js ''png'') (js ''AAAA'')"
  by (simp add: acceptedParts_def isWordChar_def isLineTerminator_def js_def)

lemma gif_without_marker: "matchDataUrl (js ''data:image/gif,R0lGODlh'') = None"
  by (simp add: matchDataUrl_def stripPrefix_def isWordChar_def js_def)

text \<open>
  Claim C5, as amended. For a data URI whose format is one or more word characters and
  whose data is one or more code units with no line terminator, the Bedrock body carries
  an image part with that format and those data, the prefix stripped, and the OpenAI body
  carries the whole URI unchanged in \<open>image_url.url\<close>.
\<close>

theorem builders_image_part:
  assumes "acceptedParts fmt dat"
  shows "buildBedrockBody systemPrompt userText (Some (dataUri fmt dat)) =
           JObj [(js ''system'', JArr [JObj [(js ''text'', JStr systemPrompt)]]),
                 (js ''messages'',
                    JArr [JObj [(js ''role'', JStr (js ''user'')),
                                (js ''content'',
                                   JArr [JObj [(js ''text'', JStr userText)],
                                         JObj [(js ''image'',
                                            JObj [(js ''format'', JStr fmt),
                                                  (js ''source'', JObj [(js ''bytes'', JStr dat)])])]])]]),
                 (js ''inferenceConfig'',
                    JObj [(js ''maxTokens'', JNum (js ''4096'')),
                          (js ''temperature'', JNum (js ''0.1''))])]
         \<and> buildOpenAIBody systemPrompt userText (Some (dataUri fmt dat)) model =
           JObj [(js ''model'', JStr model),
                 (js ''messages'',
                    JArr [JObj [(js ''role'', JStr (js ''system'')), (js ''content'', JStr systemPrompt)],
                          JObj [(js ''role'', JStr (js ''user'')),
                                (js ''content'',
                                   JArr [JObj [(js ''type'', JStr (js ''text'')), (js ''text'', JStr userText)],
                                         JObj [(js ''type'', JStr (js ''image_url'')),
                                               (js ''image_url'',
                                                  JObj [(js ''url'', JStr (dataUri fmt dat))])]])]]),
                 (js ''max_tokens'', JNum (js ''4096'')),
                 (js ''temperature'', JNum (js ''0.1''))]"
proof -
  from assms have w: "list_all isWordChar fmt" by (simp add: acceptedParts_def)
  show ?thesis
    by (simp add: buildBedrockBody_def buildOpenAIBody_def dataUri_nonempty
          matchDataUrl_accepted [OF assms] format_of_group [OF w])
qed

text \<open>The theorem at \<open>data:image/png;base64,AAAA\<close>.\<close>

theorem builders_image_part_witness:
  "acceptedParts (js ''png'') (js ''AAAA'')
   \<and> dataUri (js ''png'') (js ''AAAA'') = js ''data:image/png;base64,AAAA''
   \<and> buildBedrockBody (js ''p'') (js ''u'') (Some (js ''data:image/png;base64,AAAA'')) =
           JObj [(js ''system'', JArr [JObj [(js ''text'', JStr (js ''p''))]]),
                 (js ''messages'',
                    JArr [JObj [(js ''role'', JStr (js ''user'')),
                                (js ''content'',
                                   JArr [JObj [(js ''text'', JStr (js ''u''))],
                                         JObj [(js ''image'',
                                            JObj [(js ''format'', JStr (js ''png'')),
                                                  (js ''source'', JObj [(js ''bytes'', JStr (js ''AAAA''))])])]])]]),
                 (js ''inferenceConfig'',
                    JObj [(js ''maxTokens'', JNum (js ''4096'')),
                          (js ''temperature'', JNum (js ''0.1''))])]
   \<and> buildOpenAIBody (js ''p'') (js ''u'') (Some (js ''data:image/png;base64,AAAA'')) (js ''gpt-4o'') =
           JObj [(js ''model'', JStr (js ''gpt-4o'')),
                 (js ''messages'',
                    JArr [JObj [(js ''role'', JStr (js ''system'')), (js ''content'', JStr (js ''p''))],
                          JObj [(js ''role'', JStr (js ''user'')),
                                (js ''content'',
                                   JArr [JObj [(js ''type'', JStr (js ''text'')), (js ''text'', JStr (js ''u''))],
                                         JObj [(js ''type'', JStr (js ''image_url'')),
                                               (js ''image_url'',
                                                  JObj [(js ''url'', JStr (js ''data:image/png;base64,AAAA''))])]])]]),
                 (js ''max_tokens'', JNum (js ''4096'')),
                 (js ''temperature'', JNum (js ''0.1''))]"
proof -
  have e: "dataUri (js ''png'') (js ''AAAA'') = js ''data:image/png;base64,AAAA''"
    by (simp add: dataUri_def js_def)
  show ?thesis
    using builders_image_part [OF png_accepted, of "js ''p''" "js ''u''" "js ''gpt-4o''"]
    by (simp add: png_accepted e)
qed

text \<open>
  Claim C5 as stated fails for a format outside the word characters: the Bedrock body for
  \<open>data:image/svg+xml;base64,AAAA\<close> has the text part only.
\<close>

theorem builders_image_part_counterexample:
  "dataUri (js ''svg+xml'') (js ''AAAA'') = js ''data:image/svg+xml;base64,AAAA''
   \<and> buildBedrockBody (js ''p'') (js ''u'') (Some (dataUri (js ''svg+xml'') (js ''AAAA''))) =
           JObj [(js ''system'', JArr [JObj [(js ''text'', JStr (js ''p''))]]),
                 (js ''messages'',
                    JArr [JObj [(js ''role'', JStr (js ''user'')),
                                (js ''content'', JArr [JObj [(js ''text'', JStr (js ''u''))]])]]),
                 (js ''inferenceConfig'',
                    JObj [(js ''maxTokens'', JNum (js ''4096'')),
                          (js ''temperature'', JNum (js ''0.1''))])]"
  by (simp add: buildBedrockBody_def matchDataUrl_def stripPrefix_def dataUri_def isWordChar_def js_def)

text \<open>
  Claim C10. For an image string that the data-URI pattern does not match,
  \<open>buildBedrockBody\<close> returns a body whose user content is the text part alone.
\<close>

theorem buildBedrockBody_unmatched_image:
  assumes "\<not> matchesDataUriPattern shot"
  shows "buildBedrockBody systemPrompt userText (Some shot) =
           JObj [(js ''system'', JArr [JObj [(js ''text'', JStr systemPrompt)]]),
                 (js ''messages'',
                    JArr [JObj [(js ''role'', JStr (js ''user'')),
                                (js ''content'', JArr [JObj [(js ''text'', JStr userText)]])]]),
                 (js ''inferenceConfig'',
                    JObj [(js ''maxTokens'', JNum (js ''4096'')),
                          (js ''temperature'', JNum (js ''0.1''))])]"
proof -
  from assms have "matchDataUrl shot = None" by (simp add: matchDataUrl_None_iff)
  then show ?thesis by (simp add: buildBedrockBody_def Let_def)
qed

text \<open>The theorem at a data URI that lacks the \<open>;base64,\<close> marker.\<close>

theorem buildBedrockBody_unmatched_image_witness:
  "\<not> matchesDataUriPattern (js ''data:image/gif,R0lGODlh'')
   \<and> buildBedrockBody (js ''p'') (js ''u'') (Some (js ''data:image/gif,R0lGODlh'')) =
           JObj [(js ''system'', JArr [JObj [(js ''text'', JStr (js ''p''))]]),
                 (js ''messages'',
                    JArr [JObj [(js ''role'', JStr (js ''user'')),
                                (js ''content'', JArr [JObj [(js ''text'', JStr (js ''u''))]])]]),
                 (js ''inferenceConfig'',
                    JObj [(js ''maxTokens'', JNum (js ''4096'')),
                          (js ''temperature'', JNum (js ''0.1''))])]"
proof -
  have n: "\<not> matchesDataUriPattern (js ''data:image/gif,R0lGODlh'')"
    using gif_without_marker by (simp add: matchDataUrl_None_iff)
  from buildBedrockBody_unmatched_image [OF n, of "js ''p''" "js ''u''"] n show ?thesis by simp
qed

lemma getProp_system:
  "getProp (buildBedrockBody sp ut img) (js ''system'') = JArr [JObj [(js ''text'', JStr sp)]]"
  by (simp add: buildBedrockBody_def Let_def)

section \<open>Configuration\<close>

lemma getStringPref_blank: "prefBlank E key \<Longrightarrow> getStringPref E key d = d"
  by (auto simp: prefBlank_def getStringPref_def split: option.splits)

lemma getConfig_openai:
  "resolvedProvider E = js ''openai'' \<Longrightarrow>
   getConfig E =
     (if getStringPref E ''openai.apiKey'' [] = [] then
        Inl (Error (js ''OpenAI API key not configured. Please set it in Vibe Translate preferences.''))
      else Inr \<lparr>provider = js ''openai'', apiKey = getStringPref E ''openai.apiKey'' [],
                modelId = getStringPref E ''openai.modelId'' (js ''gpt-4o''), region = [],
                openaiEndpoint = getStringPref E ''openai.endpoint''
                                   (js ''https://api.openai.com/v1/chat/completions'')\<rparr>)"
  by (simp add: getConfig_def resolvedProvider_def Let_def)

lemma getConfig_bedrock:
  "resolvedProvider E \<noteq> js ''openai'' \<Longrightarrow>
   getConfig E =
     (if getStringPref E ''bedrock.apiKey'' [] = [] then
        Inl (Error (js ''Bedrock API key not configured. Please set it in Vibe Translate preferences.''))
      else Inr \<lparr>provider = resolvedProvider E, apiKey = getStringPref E ''bedrock.apiKey'' [],
                modelId = getStringPref E ''bedrock.modelId''
                            (js ''us.anthropic.claude-sonnet-4-5-20250929-v1:0''),
                region = getStringPref E ''bedrock.region'' (js ''us-east-1''),
                openaiEndpoint = []\<rparr>)"
  by (simp add: getConfig_def resolvedProvider_def Let_def)

lemma getConfig_provider: "getConfig E = Inr cfg \<Longrightarrow> provider cfg = resolvedProvider E"
  by (cases "resolvedProvider E = js ''openai''")
     (auto simp: getConfig_openai getConfig_bedrock split: if_splits)

lemma resolvedProvider_not_openai:
  assumes "providerPrefTrimmed E \<noteq> Some (js ''openai'')"
  shows "resolvedProvider E \<noteq> js ''openai''"
proof (cases "Prefs_get E (PREF_PREFIX @ ''.'' @ ''provider'')")
  case None
  then show ?thesis by (simp add: resolvedProvider_def getStringPref_def js_def)
next
  case (Some v)
  with assms have "js_trim v \<noteq> js ''openai''" by (simp add: providerPrefTrimmed_def)
  with Some show ?thesis
    by (auto simp: resolvedProvider_def getStringPref_def) (simp_all add: js_def)
qed

lemma translateText_no_config: "getConfig E = Inl e \<Longrightarrow> translateText E input = (Inl e, [])"
  by (simp add: translateText_def Let_def)

lemma testConnection_no_config: "getConfig E = Inl e \<Longrightarrow> testConnection E = (Inl e, [])"
  by (simp add: testConnection_def)

text \<open>The example environments, evaluated.\<close>

lemma pref_simps:
  "Prefs_get (exampleEnv prefs server) = map_of prefs"
  "HTTP_request (exampleEnv prefs server) = server"
  "JSON_parse (exampleEnv prefs server) = exampleParse"
  "encodeURIComponent (exampleEnv prefs server) = Inr"
  "TypeError_message (exampleEnv prefs server) = exampleTypeError"
  by (simp_all add: exampleEnv_def)

lemma trims:
  "js_trim (js ''key-1'') = js ''key-1''"
  "js_trim (js ''model-1'') = js ''model-1''"
  "js_trim (js ''openai'') = js ''openai''"
  "js_trim (js ''openai '') = js ''openai''"
  "js_trim (js ''google'') = js ''google''"
  by (simp_all add: js_trim_def isWhiteSpace_def js_def)

lemma bedrock_not_openai: "js ''bedrock'' \<noteq> js ''openai''" "js ''google'' \<noteq> js ''openai''"
   "js ''key-1'' \<noteq> []"
  by (simp_all add: js_def)

lemma resolvedProvider_examples:
  "resolvedProvider (exampleEnv bedrockPrefs server) = js ''bedrock''"
  "resolvedProvider (exampleEnv openaiPrefs server) = js ''openai''"
  "resolvedProvider (exampleEnv paddedOpenaiPrefs server) = js ''openai''"
  "resolvedProvider (exampleEnv googlePrefs server) = js ''google''"
  by (simp_all add: resolvedProvider_def getStringPref_def pref_simps bedrockPrefs_def
        openaiPrefs_def paddedOpenaiPrefs_def googlePrefs_def PREF_PREFIX_def trims)
     (simp_all add: js_def)

lemma resolvedApiKey_none: "resolvedApiKey (exampleEnv [] server) = []"
  by (simp add: resolvedApiKey_def resolvedProvider_def getStringPref_def pref_simps js_def)

lemma getConfig_bedrockPrefs:
  "getConfig (exampleEnv bedrockPrefs server) =
     Inr \<lparr>provider = js ''bedrock'', apiKey = js ''key-1'', modelId = js ''model-1'',
          region = js ''us-east-1'', openaiEndpoint = []\<rparr>"
  by (simp add: getConfig_bedrock resolvedProvider_examples bedrock_not_openai)
     (simp add: getStringPref_def pref_simps bedrockPrefs_def PREF_PREFIX_def trims bedrock_not_openai,
      simp add: js_def)

lemma getConfig_googlePrefs:
  "getConfig (exampleEnv googlePrefs server) =
     Inr \<lparr>provider = js ''google'', apiKey = js ''key-1'', modelId = js ''model-1'',
          region = js ''us-east-1'', openaiEndpoint = []\<rparr>"
  by (simp add: getConfig_bedrock resolvedProvider_examples bedrock_not_openai)
     (simp add: getStringPref_def pref_simps googlePrefs_def PREF_PREFIX_def trims bedrock_not_openai,
      simp add: js_def)

lemma getConfig_openaiPrefs:
  "getConfig (exampleEnv openaiPrefs server) =
     Inr \<lparr>provider = js ''openai'', apiKey = js ''key-1'', modelId = js ''gpt-4o'',
          region = [], openaiEndpoint = js ''https://api.openai.com/v1/chat/completions''\<rparr>"
  by (simp add: getConfig_openai resolvedProvider_examples)
     (simp add: getStringPref_def pref_simps openaiPrefs_def PREF_PREFIX_def trims bedrock_not_openai)

lemma getConfig_paddedOpenaiPrefs:
  "getConfig (exampleEnv paddedOpenaiPrefs server) =
     Inr \<lparr>provider = js ''openai'', apiKey = js ''key-1'', modelId = js ''gpt-4o'',
          region = [], openaiEndpoint = js ''https://api.openai.com/v1/chat/completions''\<rparr>"
  by (simp add: getConfig_openai resolvedProvider_examples)
     (simp add: getStringPref_def pref_simps paddedOpenaiPrefs_def PREF_PREFIX_def trims bedrock_not_openai)

lemma providerPrefTrimmed_google:
  "providerPrefTrimmed (exampleEnv googlePrefs server) = Some (js ''google'')"
  by (simp add: providerPrefTrimmed_def pref_simps googlePrefs_def PREF_PREFIX_def trims)

lemma targetLanguageOf_bedrockPrefs: "targetLanguageOf (exampleEnv bedrockPrefs server) = js ''zh-CN''"
  by (simp add: targetLanguageOf_def getStringPref_def pref_simps bedrockPrefs_def PREF_PREFIX_def)

lemma textResponse_simps:
  "status (textResponse st t) = st"
  "responseText (textResponse st t) = t"
  "response (textResponse st t) = JStr t"
  by (simp_all add: textResponse_def)

lemma replies_differ: "bedrockReplyText \<noteq> openaiReplyText"
  by (simp add: bedrockReplyText_def openaiReplyText_def js_def)

lemma prefBlank_examples:
  "prefBlank (exampleEnv openaiPrefs server) ''openai.modelId''"
  "prefBlank (exampleEnv openaiPrefs server) ''openai.endpoint''"
  "prefBlank (exampleEnv bedrockPrefs server) ''provider''"
  "prefBlank (exampleEnv bedrockPrefs server) ''bedrock.region''"
  by (simp_all add: prefBlank_def pref_simps openaiPrefs_def bedrockPrefs_def PREF_PREFIX_def)

lemma resolvedApiKey_examples:
  "resolvedApiKey (exampleEnv openaiPrefs server) = js ''key-1''"
  "resolvedApiKey (exampleEnv bedrockPrefs server) = js ''key-1''"
  by (simp_all add: resolvedApiKey_def resolvedProvider_examples bedrock_not_openai)
     (simp_all add: getStringPref_def pref_simps openaiPrefs_def bedrockPrefs_def PREF_PREFIX_def
        trims bedrock_not_openai)

text \<open>
  Claim C3. \<open>getConfig\<close> raises its configuration error exactly when the API key read
  for the active provider is empty, and then \<open>translateText\<close> and \<open>testConnection\<close> reject
  with that error and no request issued; with a key it returns a configuration in which
  the defaults stand for blank preferences: provider \<open>bedrock\<close>, region \<open>us-east-1\<close>,
  OpenAI model \<open>gpt-4o\<close> and the public OpenAI endpoint.
\<close>

theorem getConfig_apiKey:
  "(resolvedApiKey E = [] \<longrightarrow>
      (\<exists>m. getConfig E = Inl (Error m)
         \<and> translateText E input = (Inl (Error m), [])
         \<and> testConnection E = (Inl (Error m), [])))
   \<and> (resolvedApiKey E \<noteq> [] \<longrightarrow>
      (\<exists>cfg. getConfig E = Inr cfg
         \<and> apiKey cfg = resolvedApiKey E
         \<and> (prefBlank E ''provider'' \<longrightarrow> provider cfg = js ''bedrock'')
         \<and> (provider cfg \<noteq> js ''openai'' \<and> prefBlank E ''bedrock.region'' \<longrightarrow>
              region cfg = js ''us-east-1'')
         \<and> (provider cfg = js ''openai'' \<and> prefBlank E ''openai.modelId'' \<longrightarrow>
              modelId cfg = js ''gpt-4o'')
         \<and> (provider cfg = js ''openai'' \<and> prefBlank E ''openai.endpoint'' \<longrightarrow>
              openaiEndpoint cfg = js ''https://api.openai.com/v1/chat/completions'')))"
proof (cases "resolvedProvider E = js ''openai''")
  case True
  have nb: "\<not> prefBlank E ''provider''"
  proof
    assume "prefBlank E ''provider''"
    then have "resolvedProvider E = js ''bedrock''"
      by (simp add: resolvedProvider_def getStringPref_blank)
    with True show False by (simp add: js_def)
  qed
  show ?thesis
  proof (cases "resolvedApiKey E = []")
    case empty: True
    with \<open>resolvedProvider E = js ''openai''\<close> have
      "getConfig E = Inl (Error (js ''OpenAI API key not configured. Please set it in Vibe Translate preferences.''))"
      by (simp add: getConfig_openai resolvedApiKey_def)
    with empty show ?thesis
      by (simp add: translateText_no_config testConnection_no_config)
  next
    case False
    with True show ?thesis
      using nb by (simp add: getConfig_openai resolvedApiKey_def getStringPref_blank)
  qed
next
  case False
  show ?thesis
  proof (cases "resolvedApiKey E = []")
    case empty: True
    with False have
      "getConfig E = Inl (Error (js ''Bedrock API key not configured. Please set it in Vibe Translate preferences.''))"
      by (simp add: getConfig_bedrock resolvedApiKey_def)
    with empty show ?thesis
      by (simp add: translateText_no_config testConnection_no_config)
  next
    case nonempty: False
    with False show ?thesis
      by (auto simp: getConfig_bedrock resolvedApiKey_def getStringPref_blank resolvedProvider_def)
  qed
qed

text \<open>The theorem in a host with no preference set, in one configured for OpenAI and in one with a Bedrock key only.\<close>

theorem getConfig_apiKey_witness:
  "resolvedApiKey (exampleEnv [] (replyingServer 200 bedrockReplyText)) = []
   \<and> getConfig (exampleEnv [] (replyingServer 200 bedrockReplyText)) =
       Inl (Error (js ''Bedrock API key not configured. Please set it in Vibe Translate preferences.''))
   \<and> translateText (exampleEnv [] (replyingServer 200 bedrockReplyText)) plainInput =
       (Inl (Error (js ''Bedrock API key not configured. Please set it in Vibe Translate preferences.'')), [])
   \<and> testConnection (exampleEnv [] (replyingServer 200 bedrockReplyText)) =
       (Inl (Error (js ''Bedrock API key not configured. Please set it in Vibe Translate preferences.'')), [])
   \<and> resolvedApiKey (exampleEnv openaiPrefs (replyingServer 200 openaiReplyText)) = js ''key-1''
   \<and> js ''key-1'' \<noteq> []
   \<and> prefBlank (exampleEnv openaiPrefs (replyingServer 200 openaiReplyText)) ''openai.modelId''
   \<and> prefBlank (exampleEnv openaiPrefs (replyingServer 200 openaiReplyText)) ''openai.endpoint''
   \<and> getConfig (exampleEnv openaiPrefs (replyingServer 200 openaiReplyText)) =
       Inr \<lparr>provider = js ''openai'', apiKey = js ''key-1'', modelId = js ''gpt-4o'', region = [],
            openaiEndpoint = js ''https://api.openai.com/v1/chat/completions''\<rparr>
   \<and> resolvedApiKey (exampleEnv bedrockPrefs (replyingServer 200 bedrockReplyText)) = js ''key-1''
   \<and> prefBlank (exampleEnv bedrockPrefs (replyingServer 200 bedrockReplyText)) ''provider''
   \<and> prefBlank (exampleEnv bedrockPrefs (replyingServer 200 bedrockReplyText)) ''bedrock.region''
   \<and> getConfig (exampleEnv bedrockPrefs (replyingServer 200 bedrockReplyText)) =
       Inr \<lparr>provider = js ''bedrock'', apiKey = js ''key-1'', modelId = js ''model-1'',
            region = js ''us-east-1'', openaiEndpoint = []\<rparr>"
proof -
  let ?E = "exampleEnv [] (replyingServer 200 bedrockReplyText)"
  let ?F = "exampleEnv openaiPrefs (replyingServer 200 openaiReplyText)"
  let ?G = "exampleEnv bedrockPrefs (replyingServer 200 bedrockReplyText)"
  have k: "resolvedApiKey ?E = []" by (rule resolvedApiKey_none)
  have p: "resolvedProvider ?E = js ''bedrock''"
    by (simp add: resolvedProvider_def getStringPref_def pref_simps)
  have g: "getConfig ?E =
       Inl (Error (js ''Bedrock API key not configured. Please set it in Vibe Translate preferences.''))"
    by (simp add: getConfig_bedrock p bedrock_not_openai) (simp add: getStringPref_def pref_simps)
  from getConfig_apiKey [of ?E plainInput] k obtain m where
    m: "getConfig ?E = Inl (Error m)" "translateText ?E plainInput = (Inl (Error m), [])"
       "testConnection ?E = (Inl (Error m), [])"
    by blast
  from m(1) g have "m = js ''Bedrock API key not configured. Please set it in Vibe Translate preferences.''"
    by simp
  with m k g have 1: "resolvedApiKey ?E = []
     \<and> getConfig ?E = Inl (Error (js ''Bedrock API key not configured. Please set it in Vibe Translate preferences.''))
     \<and> translateText ?E plainInput = (Inl (Error (js ''Bedrock API key not configured. Please set it in Vibe Translate preferences.'')), [])
     \<and> testConnection ?E = (Inl (Error (js ''Bedrock API key not configured. Please set it in Vibe Translate preferences.'')), [])"
    by simp
  note F = getConfig_apiKey [of ?F plainInput] and G = getConfig_apiKey [of ?G plainInput]
  from 1 F G show ?thesis
    by (simp add: resolvedApiKey_examples bedrock_not_openai prefBlank_examples
          getConfig_openaiPrefs getConfig_bedrockPrefs)
qed

section \<open>The HTTP callers\<close>

lemma httpErrorMessage_Bedrock:
  "httpErrorMessage ''Bedrock'' st b = js ''Bedrock API error ('' @ showNat st @ js ''): '' @ take 500 b"
  by (simp add: httpErrorMessage_def js_def)

lemma httpErrorMessage_OpenAI:
  "httpErrorMessage ''OpenAI'' st b = js ''OpenAI API error ('' @ showNat st @ js ''): '' @ take 500 b"
  by (simp add: httpErrorMessage_def js_def)

lemma js_substring_take: "js_substring s 0 n = take n s"
  by (simp add: js_substring_def)

lemma filterTextParts_error: "filterTextParts E ps = Inl e \<Longrightarrow> \<exists>m. e = TypeError m"
  by (induction ps arbitrary: e) (auto split: if_splits sum.splits)

lemma js_String_error: "js_String m v = Inl e \<Longrightarrow> \<exists>t. e = TypeError t"
  and js_join_error: "js_join m sep xs = Inl e \<Longrightarrow> \<exists>t. e = TypeError t"
  by (induction m v and m sep xs arbitrary: e and e rule: js_String_js_join.induct)
     (auto split: if_splits sum.splits)

lemma parseResponse_error: "parseResponse E s = Inl e \<Longrightarrow> \<exists>m. e = SyntaxError m"
  by (auto simp: parseResponse_def split: sum.splits)

lemma unexpected_not_http:
  "js ''Unexpected Bedrock response: '' @ r \<noteq> httpErrorMessage ''Bedrock'' st b"
  "js ''Unexpected OpenAI response: '' @ r \<noteq> httpErrorMessage ''OpenAI'' st b"
  by (simp_all add: httpErrorMessage_def js_def)

lemma callBedrock_settled_200:
  assumes "status x = 200"
  shows "callBedrock_settled E (Resolved x) \<noteq> Inl (Error (httpErrorMessage ''Bedrock'' st b))"
proof
  assume a: "callBedrock_settled E (Resolved x) = Inl (Error (httpErrorMessage ''Bedrock'' st b))"
  from a assms show False
    by (auto simp: callBedrock_settled_def Let_def unexpected_not_http
          split: sum.splits jsvalue.splits if_splits
          dest: parseResponse_error filterTextParts_error js_join_error)
qed

lemma callOpenAI_settled_200:
  assumes "status x = 200"
  shows "callOpenAI_settled E (Resolved x) \<noteq> Inl (Error (httpErrorMessage ''OpenAI'' st b))"
proof
  assume a: "callOpenAI_settled E (Resolved x) = Inl (Error (httpErrorMessage ''OpenAI'' st b))"
  from a assms show False
    by (auto simp: callOpenAI_settled_def Let_def unexpected_not_http
          split: sum.splits jsvalue.splits if_splits
          dest: parseResponse_error)
qed

lemma callBedrock_settled_rejected:
  "callBedrock_settled E (RejectedWithXhr x) =
     Inl (Error (httpErrorMessage ''Bedrock'' (status x) (responseText x)))"
  by (simp add: callBedrock_settled_def httpErrorMessage_Bedrock js_substring_take)

lemma callOpenAI_settled_rejected:
  "callOpenAI_settled E (RejectedWithXhr x) =
     Inl (Error (httpErrorMessage ''OpenAI'' (status x) (responseText x)))"
  by (simp add: callOpenAI_settled_def httpErrorMessage_OpenAI js_substring_take)

lemma callers_settled_not_200:
  assumes "status x \<noteq> 200" "response x = JStr (responseText x)"
  shows "callBedrock_settled E (Resolved x) =
           Inl (Error (httpErrorMessage ''Bedrock'' (status x) (responseText x)))"
    and "callOpenAI_settled E (Resolved x) =
           Inl (Error (httpErrorMessage ''OpenAI'' (status x) (responseText x)))"
  using assms
  by (simp_all add: callBedrock_settled_def callOpenAI_settled_def
        httpErrorMessage_Bedrock httpErrorMessage_OpenAI js_substring_take)

lemma openai_settled_reply:
  "callOpenAI_settled (exampleEnv prefs server) (Resolved (textResponse 200 openaiReplyText)) =
     Inr (JStr (js '' hi ''))"
  by (simp add: callOpenAI_settled_def textResponse_simps parseResponse_def pref_simps
        exampleParse_def openaiReply_def)
     (simp add: js_def)

lemma bedrock_settled_reply:
  "callBedrock_settled (exampleEnv prefs server) (Resolved (textResponse 200 bedrockReplyText)) =
     Inr (JStr (js ''ok''))"
  by (simp add: callBedrock_settled_def textResponse_simps parseResponse_def pref_simps
        exampleParse_def replies_differ bedrockReply_def)

lemma showNat_examples:
  "showNat 400 = js ''400''" "showNat 404 = js ''404''" "showNat 201 = js ''201''"
  by (simp_all add: showNat.simps js_def)

lemma httpErrorMessage_examples:
  "httpErrorMessage ''Bedrock'' 404 (js ''no such model'') = js ''Bedrock API error (404): no such model''"
  "httpErrorMessage ''OpenAI'' 404 (js ''no such model'') = js ''OpenAI API error (404): no such model''"
  "httpErrorMessage ''Bedrock'' 201 (js ''{}'') = js ''Bedrock API error (201): {}''"
  "httpErrorMessage ''OpenAI'' 201 (js ''{}'') = js ''OpenAI API error (201): {}''"
  "httpErrorMessage ''Bedrock'' 400 (js ''image input not supported'') =
     js ''Bedrock API error (400): image input not supported''"
  "httpErrorMessage ''Bedrock'' 400 (js ''IMAGE INPUT NOT SUPPORTED'') =
     js ''Bedrock API error (400): IMAGE INPUT NOT SUPPORTED''"
  by (simp_all add: httpErrorMessage_def showNat_examples) (simp_all add: js_def)

text \<open>
  Claim C8, as amended. For both callers, a response that the request resolves with and
  whose status is 200 never raises the HTTP error; a text response with any other status
  raises it, as does every rejection that carries the response; the message of the error
  is the status code and the first 500 code units of the response text.
\<close>

theorem callers_http_error:
  "(status x = 200 \<longrightarrow>
      (\<forall>st b. callBedrock_settled E (Resolved x) \<noteq> Inl (Error (httpErrorMessage ''Bedrock'' st b))
            \<and> callOpenAI_settled E (Resolved x) \<noteq> Inl (Error (httpErrorMessage ''OpenAI'' st b))))
   \<and> (status x \<noteq> 200 \<and> response x = JStr (responseText x) \<longrightarrow>
        callBedrock_settled E (Resolved x) =
          Inl (Error (httpErrorMessage ''Bedrock'' (status x) (responseText x)))
        \<and> callOpenAI_settled E (Resolved x) =
          Inl (Error (httpErrorMessage ''OpenAI'' (status x) (responseText x))))
   \<and> callBedrock_settled E (RejectedWithXhr x) =
        Inl (Error (httpErrorMessage ''Bedrock'' (status x) (responseText x)))
   \<and> callOpenAI_settled E (RejectedWithXhr x) =
        Inl (Error (httpErrorMessage ''OpenAI'' (status x) (responseText x)))"
proof -
  have 1: "status x = 200 \<longrightarrow>
      (\<forall>st b. callBedrock_settled E (Resolved x) \<noteq> Inl (Error (httpErrorMessage ''Bedrock'' st b))
            \<and> callOpenAI_settled E (Resolved x) \<noteq> Inl (Error (httpErrorMessage ''OpenAI'' st b)))"
    using callBedrock_settled_200 callOpenAI_settled_200 by blast
  have 2: "status x \<noteq> 200 \<and> response x = JStr (responseText x) \<longrightarrow>
        callBedrock_settled E (Resolved x) =
          Inl (Error (httpErrorMessage ''Bedrock'' (status x) (responseText x)))
        \<and> callOpenAI_settled E (Resolved x) =
          Inl (Error (httpErrorMessage ''OpenAI'' (status x) (responseText x)))"
    by (simp add: callers_settled_not_200)
  have 3: "callBedrock_settled E (RejectedWithXhr x) =
        Inl (Error (httpErrorMessage ''Bedrock'' (status x) (responseText x)))"
    by (rule callBedrock_settled_rejected)
  have 4: "callOpenAI_settled E (RejectedWithXhr x) =
        Inl (Error (httpErrorMessage ''OpenAI'' (status x) (responseText x)))"
    by (rule callOpenAI_settled_rejected)
  from 1 2 3 4 show ?thesis by blast
qed

text \<open>The theorem at a 404 response and at a 200 response.\<close>

theorem callers_http_error_witness:
  "status (textResponse 404 (js ''no such model'')) \<noteq> 200
   \<and> response (textResponse 404 (js ''no such model'')) =
       JStr (responseText (textResponse 404 (js ''no such model'')))
   \<and> callBedrock_settled (exampleEnv bedrockPrefs (replyingServer 404 (js ''no such model'')))
        (Resolved (textResponse 404 (js ''no such model''))) =
       Inl (Error (js ''Bedrock API error (404): no such model''))
   \<and> callOpenAI_settled (exampleEnv bedrockPrefs (replyingServer 404 (js ''no such model'')))
        (Resolved (textResponse 404 (js ''no such model''))) =
       Inl (Error (js ''OpenAI API error (404): no such model''))
   \<and> status (textResponse 200 bedrockReplyText) = 200
   \<and> callBedrock_settled (exampleEnv bedrockPrefs (replyingServer 404 (js ''no such model'')))
        (Resolved (textResponse 200 bedrockReplyText)) = Inr (JStr (js ''ok''))"
  using callers_http_error [of "textResponse 404 (js ''no such model'')"
          "exampleEnv bedrockPrefs (replyingServer 404 (js ''no such model''))"]
        callers_http_error [of "textResponse 200 bedrockReplyText"
          "exampleEnv bedrockPrefs (replyingServer 404 (js ''no such model''))"]
  by (simp add: textResponse_simps httpErrorMessage_examples bedrock_settled_reply)

text \<open>
  Claim C8 as stated fails for a success status other than 200: both callers raise the
  HTTP error for a response with status 201.
\<close>

theorem callers_http_error_counterexample:
  "status (textResponse 201 (js ''{}'')) = 201
   \<and> callBedrock_settled (exampleEnv bedrockPrefs (replyingServer 201 (js ''{}'')))
        (Resolved (textResponse 201 (js ''{}''))) =
       Inl (Error (js ''Bedrock API error (201): {}''))
   \<and> callOpenAI_settled (exampleEnv openaiPrefs (replyingServer 201 (js ''{}'')))
        (Resolved (textResponse 201 (js ''{}''))) =
       Inl (Error (js ''OpenAI API error (201): {}''))"
  by (simp add: callers_settled_not_200 textResponse_simps httpErrorMessage_examples)

section \<open>The dispatcher\<close>

lemma callBedrock_request:
  assumes "getConfig E = Inr cfg" "encodeURIComponent E m = Inr enc"
  shows "callBedrock E log m b =
           (callBedrock_settled E (HTTP_request E log (bedrockRequest cfg enc b)),
            log @ [bedrockRequest cfg enc b])"
  using assms by (simp add: callBedrock_def bedrockRequest_def Let_def)

lemma callBedrock_no_request:
  assumes "getConfig E = Inr cfg" "encodeURIComponent E m = Inl msg"
  shows "callBedrock E log m b = (Inl (URIError msg), log)"
  using assms by (simp add: callBedrock_def)

lemma callOpenAI_request:
  assumes "getConfig E = Inr cfg"
  shows "callOpenAI E log m b =
           (callOpenAI_settled E (HTTP_request E log (openaiRequest cfg b)),
            log @ [openaiRequest cfg b])"
  using assms by (simp add: callOpenAI_def openaiRequest_def Let_def)

lemma callModel_openai:
  assumes "getConfig E = Inr cfg" "provider cfg = js ''openai''"
  shows "callModel E log sp ut img =
           (callOpenAI_settled E
              (HTTP_request E log (openaiRequest cfg (buildOpenAIBody sp ut img (modelId cfg)))),
            log @ [openaiRequest cfg (buildOpenAIBody sp ut img (modelId cfg))])"
  using assms by (simp add: callModel_def callOpenAI_request)

lemma callModel_bedrock:
  assumes "getConfig E = Inr cfg" "provider cfg \<noteq> js ''openai''"
    "encodeURIComponent E (modelId cfg) = Inr enc"
  shows "callModel E log sp ut img =
           (callBedrock_settled E
              (HTTP_request E log (bedrockRequest cfg enc (buildBedrockBody sp ut img))),
            log @ [bedrockRequest cfg enc (buildBedrockBody sp ut img)])"
  using assms by (simp add: callModel_def callBedrock_request)

lemma callModel_bedrock_no_request:
  assumes "getConfig E = Inr cfg" "provider cfg \<noteq> js ''openai''"
    "encodeURIComponent E (modelId cfg) = Inl msg"
  shows "callModel E log sp ut img = (Inl (URIError msg), log)"
  using assms by (simp add: callModel_def callBedrock_no_request)

lemma callModel_no_config: "getConfig E = Inl e \<Longrightarrow> callModel E log sp ut img = (Inl e, log)"
  by (simp add: callModel_def)

lemma callModel_log:
  "snd (callModel E log sp ut img) = log \<or> (\<exists>req. snd (callModel E log sp ut img) = log @ [req])"
proof (cases "getConfig E")
  case (Inl e)
  then show ?thesis by (simp add: callModel_no_config)
next
  case (Inr cfg)
  show ?thesis
  proof (cases "provider cfg = js ''openai''")
    case True
    with Inr show ?thesis by (simp add: callModel_openai)
  next
    case False
    show ?thesis
    proof (cases "encodeURIComponent E (modelId cfg)")
      case (Inl msg)
      with Inr False show ?thesis by (simp add: callModel_bedrock_no_request)
    next
      case enc: (Inr enc)
      with Inr False show ?thesis by (simp add: callModel_bedrock)
    qed
  qed
qed

lemma url_openaiRequest: "url (openaiRequest cfg b) = normalizeEndpoint (openaiEndpoint cfg)"
  by (simp add: openaiRequest_def)

lemma url_bedrockRequest:
  "url (bedrockRequest cfg enc b) =
     js ''https://bedrock-runtime.'' @ region cfg @ js ''.amazonaws.com/model/'' @ enc @ js ''/converse''"
  by (simp add: bedrockRequest_def)

lemma request_fields:
  "url (bedrockRequest cfg enc b) = url (bedrockRequest cfg enc b')"
  "headers (bedrockRequest cfg enc b) = headers (bedrockRequest cfg enc b')"
  "body (bedrockRequest cfg enc b) = b"
  "url (openaiRequest cfg b) = url (openaiRequest cfg b')"
  "headers (openaiRequest cfg b) = headers (openaiRequest cfg b')"
  "body (openaiRequest cfg b) = b"
  by (simp_all add: bedrockRequest_def openaiRequest_def)

lemma callModel_googlePrefs:
  "snd (callModel (exampleEnv googlePrefs server) [] sp ut img) =
     [bedrockRequest \<lparr>provider = js ''google'', apiKey = js ''key-1'', modelId = js ''model-1'',
          region = js ''us-east-1'', openaiEndpoint = []\<rparr> (js ''model-1'') (buildBedrockBody sp ut img)]"
  by (simp add: callModel_bedrock [OF getConfig_googlePrefs] bedrock_not_openai pref_simps)

lemma callModel_openaiPrefs_reply:
  "fst (callModel (exampleEnv openaiPrefs (replyingServer 200 openaiReplyText)) log sp ut img) =
     Inr (JStr (js '' hi ''))"
  by (simp add: callModel_openai [OF getConfig_openaiPrefs] pref_simps replyingServer_def
        openai_settled_reply)

text \<open>
  Claim C9, as amended. When the \<open>provider\<close> preference, trimmed, is not \<open>openai\<close>
  (an unset one included), \<open>getConfig\<close> takes the Bedrock branch, giving the Bedrock
  configuration or the error of the missing Bedrock key, and \<open>callModel\<close> hands a
  configured call to the Bedrock builder and caller; it raises no error of its own.
\<close>

theorem provider_defaults_to_bedrock:
  assumes "providerPrefTrimmed E \<noteq> Some (js ''openai'')"
  shows "getConfig E =
           (if getStringPref E ''bedrock.apiKey'' [] = [] then
              Inl (Error (js ''Bedrock API key not configured. Please set it in Vibe Translate preferences.''))
            else Inr \<lparr>provider = resolvedProvider E, apiKey = getStringPref E ''bedrock.apiKey'' [],
                      modelId = getStringPref E ''bedrock.modelId''
                                  (js ''us.anthropic.claude-sonnet-4-5-20250929-v1:0''),
                      region = getStringPref E ''bedrock.region'' (js ''us-east-1''),
                      openaiEndpoint = []\<rparr>)
         \<and> callModel E log systemPrompt userText img =
           (case getConfig E of
              Inl e \<Rightarrow> (Inl e, log)
            | Inr cfg \<Rightarrow>
                callBedrock E log (modelId cfg) (buildBedrockBody systemPrompt userText img))"
proof -
  have n: "resolvedProvider E \<noteq> js ''openai''"
    using assms by (rule resolvedProvider_not_openai)
  have 1: "getConfig E =
           (if getStringPref E ''bedrock.apiKey'' [] = [] then
              Inl (Error (js ''Bedrock API key not configured. Please set it in Vibe Translate preferences.''))
            else Inr \<lparr>provider = resolvedProvider E, apiKey = getStringPref E ''bedrock.apiKey'' [],
                      modelId = getStringPref E ''bedrock.modelId''
                                  (js ''us.anthropic.claude-sonnet-4-5-20250929-v1:0''),
                      region = getStringPref E ''bedrock.region'' (js ''us-east-1''),
                      openaiEndpoint = []\<rparr>)"
    using n by (rule getConfig_bedrock)
  have 2: "callModel E log systemPrompt userText img =
           (case getConfig E of
              Inl e \<Rightarrow> (Inl e, log)
            | Inr cfg \<Rightarrow>
                callBedrock E log (modelId cfg) (buildBedrockBody systemPrompt userText img))"
  proof (cases "getConfig E")
    case (Inl e)
    then show ?thesis by (simp add: callModel_def)
  next
    case (Inr cfg)
    with n getConfig_provider [OF Inr] show ?thesis by (simp add: callModel_def)
  qed
  from 1 2 show ?thesis by simp
qed

text \<open>The theorem for the provider name \<open>google\<close>.\<close>

theorem provider_defaults_to_bedrock_witness:
  "providerPrefTrimmed (exampleEnv googlePrefs (replyingServer 200 bedrockReplyText)) = Some (js ''google'')
   \<and> Some (js ''google'') \<noteq> Some (js ''openai'')
   \<and> getConfig (exampleEnv googlePrefs (replyingServer 200 bedrockReplyText)) =
       Inr \<lparr>provider = js ''google'', apiKey = js ''key-1'', modelId = js ''model-1'',
            region = js ''us-east-1'', openaiEndpoint = []\<rparr>
   \<and> callModel (exampleEnv googlePrefs (replyingServer 200 bedrockReplyText)) [] (js ''p'') (js ''u'') None =
       callBedrock (exampleEnv googlePrefs (replyingServer 200 bedrockReplyText)) [] (js ''model-1'')
         (buildBedrockBody (js ''p'') (js ''u'') None)
   \<and> map url (snd (callModel (exampleEnv googlePrefs (replyingServer 200 bedrockReplyText)) []
                       (js ''p'') (js ''u'') None)) =
       [js ''https://bedrock-runtime.us-east-1.amazonaws.com/model/model-1/converse'']
   \<and> fst (callModel (exampleEnv googlePrefs (replyingServer 200 bedrockReplyText)) []
              (js ''p'') (js ''u'') None) = Inr (JStr (js ''ok''))"
proof -
  let ?E = "exampleEnv googlePrefs (replyingServer 200 bedrockReplyText)"
  have h: "providerPrefTrimmed ?E \<noteq> Some (js ''openai'')"
    by (simp add: providerPrefTrimmed_google bedrock_not_openai)
  have g: "getConfig ?E = Inr \<lparr>provider = js ''google'', apiKey = js ''key-1'', modelId = js ''model-1'',
            region = js ''us-east-1'', openaiEndpoint = []\<rparr>"
    by (rule getConfig_googlePrefs)
  from provider_defaults_to_bedrock [OF h, of "[]" "js ''p''" "js ''u''" None] g
  have c: "callModel ?E [] (js ''p'') (js ''u'') None =
       callBedrock ?E [] (js ''model-1'') (buildBedrockBody (js ''p'') (js ''u'') None)"
    by simp
  have u: "map url (snd (callModel ?E [] (js ''p'') (js ''u'') None)) =
       [js ''https://bedrock-runtime.us-east-1.amazonaws.com/model/model-1/converse'']"
    by (simp add: callModel_googlePrefs url_bedrockRequest) (simp add: js_def)
  have r: "fst (callModel ?E [] (js ''p'') (js ''u'') None) = Inr (JStr (js ''ok''))"
    by (simp add: callModel_bedrock [OF getConfig_googlePrefs] bedrock_not_openai pref_simps
          replyingServer_def bedrock_settled_reply)
  from g c u r show ?thesis
    by (simp add: providerPrefTrimmed_google bedrock_not_openai)
qed

text \<open>
  Claim C9 as stated fails for a preference that differs from \<open>openai\<close> by a blank at
  its end: it is trimmed when read, and the call goes to the OpenAI endpoint.
\<close>

theorem provider_defaults_to_bedrock_counterexample:
  "Prefs_get (exampleEnv paddedOpenaiPrefs (replyingServer 200 openaiReplyText))
       ''extensions.vibe-zotero-translate.provider'' = Some (js ''openai '')
   \<and> js ''openai '' \<noteq> js ''openai''
   \<and> getConfig (exampleEnv paddedOpenaiPrefs (replyingServer 200 openaiReplyText)) =
       Inr \<lparr>provider = js ''openai'', apiKey = js ''key-1'', modelId = js ''gpt-4o'', region = [],
            openaiEndpoint = js ''https://api.openai.com/v1/chat/completions''\<rparr>
   \<and> map url (snd (callModel (exampleEnv paddedOpenaiPrefs (replyingServer 200 openaiReplyText)) []
                       (js ''p'') (js ''u'') None)) =
       [js ''https://api.openai.com/v1/chat/completions'']
   \<and> fst (callModel (exampleEnv paddedOpenaiPrefs (replyingServer 200 openaiReplyText)) []
              (js ''p'') (js ''u'') None) = Inr (JStr (js '' hi ''))"
proof -
  let ?E = "exampleEnv paddedOpenaiPrefs (replyingServer 200 openaiReplyText)"
  have 1: "Prefs_get ?E ''extensions.vibe-zotero-translate.provider'' = Some (js ''openai '')"
    by (simp add: pref_simps paddedOpenaiPrefs_def)
  have 2: "js ''openai '' \<noteq> js ''openai''" by (simp add: js_def)
  have 3: "map url (snd (callModel ?E [] (js ''p'') (js ''u'') None)) =
       [js ''https://api.openai.com/v1/chat/completions'']"
    by (simp add: callModel_openai [OF getConfig_paddedOpenaiPrefs] url_openaiRequest normalize_default)
  have 4: "fst (callModel ?E [] (js ''p'') (js ''u'') None) = Inr (JStr (js '' hi ''))"
    by (simp add: callModel_openai [OF getConfig_paddedOpenaiPrefs] pref_simps replyingServer_def
          openai_settled_reply)
  from 1 2 3 4 getConfig_paddedOpenaiPrefs [of "replyingServer 200 openaiReplyText"]
  show ?thesis by simp
qed

section \<open>Translation and fallback\<close>

lemma translateText_unfold:
  "translateText E input =
     (case getConfig E of
        Inl e \<Rightarrow> (Inl e, [])
      | Inr cfg \<Rightarrow>
          (case firstCall E input of
             (r, log) \<Rightarrow>
               (case trimmedResult E r of
                  Inr t \<Rightarrow> (Inr t, log)
                | Inl e \<Rightarrow>
                    if hasScreenshot input \<and> namesImage e then
                      (case fallbackCall E input log of (r2, log2) \<Rightarrow> (trimmedResult E r2, log2))
                    else (Inl e, log))))"
  by (simp add: translateText_def firstCall_def fallbackCall_def trimmedResult_def namesImage_def
        targetLanguageOf_def userTextOf_def Let_def
      split: sum.splits prod.splits)

lemma trimmedResult_trimmed: "trimmedResult E r = Inr s \<Longrightarrow> js_trim s = s"
  by (auto simp: trimmedResult_def result_trim_def js_trim_idem split: sum.splits jsvalue.splits)

lemma hi_trim: "js_trim (js '' hi '') = js ''hi''" "js ''hi'' \<noteq> js '' hi ''"
  "js_trim (js ''ok'') = js ''ok''"
  by (simp_all add: js_trim_def isWhiteSpace_def js_def)

text \<open>
  Claim C6, as amended. Every string that \<open>translateText\<close> returns on success is
  trimmed.
\<close>

theorem translateText_result_trimmed:
  assumes "translateText E input = (Inr s, log)"
  shows "js_trim s = s"
proof (cases "getConfig E")
  case (Inl e)
  with assms show ?thesis by (simp add: translateText_unfold)
next
  case (Inr cfg)
  obtain r log1 where f: "firstCall E input = (r, log1)" by (cases "firstCall E input")
  show ?thesis
  proof (cases "trimmedResult E r")
    case t: (Inr t)
    with assms Inr f have "s = t" by (simp add: translateText_unfold)
    with t show ?thesis by (simp add: trimmedResult_trimmed)
  next
    case e: (Inl e)
    obtain r2 log2 where b: "fallbackCall E input log1 = (r2, log2)"
      by (cases "fallbackCall E input log1")
    from assms Inr f e b have "trimmedResult E r2 = Inr s"
      by (simp add: translateText_unfold split: if_splits)
    then show ?thesis by (rule trimmedResult_trimmed)
  qed
qed

text \<open>The theorem for an OpenAI reply with blanks around its text.\<close>

theorem translateText_result_trimmed_witness:
  "translateText (exampleEnv openaiPrefs (replyingServer 200 openaiReplyText)) plainInput =
     (Inr (js ''hi''),
      snd (translateText (exampleEnv openaiPrefs (replyingServer 200 openaiReplyText)) plainInput))
   \<and> js_trim (js ''hi'') = js ''hi''"
proof -
  let ?E = "exampleEnv openaiPrefs (replyingServer 200 openaiReplyText)"
  obtain r log where f: "firstCall ?E plainInput = (r, log)" by (cases "firstCall ?E plainInput")
  then have "r = fst (firstCall ?E plainInput)" by simp
  then have r: "r = Inr (JStr (js '' hi ''))"
    by (simp add: firstCall_def callModel_openaiPrefs_reply)
  have "fst (translateText ?E plainInput) = Inr (js ''hi'')"
    by (simp add: translateText_unfold getConfig_openaiPrefs f r trimmedResult_def
          result_trim_def hi_trim)
  then have t: "translateText ?E plainInput = (Inr (js ''hi''), snd (translateText ?E plainInput))"
    by (metis prod.collapse)
  from translateText_result_trimmed [OF t] t show ?thesis by simp
qed

text \<open>
  Claim C6 as stated fails for \<open>callModel\<close> and \<open>testConnection\<close>: both return the
  reply with its blanks.
\<close>

theorem translateText_result_trimmed_counterexample:
  "fst (callModel (exampleEnv openaiPrefs (replyingServer 200 openaiReplyText)) []
          (js ''p'') (js ''u'') None) = Inr (JStr (js '' hi ''))
   \<and> fst (testConnection (exampleEnv openaiPrefs (replyingServer 200 openaiReplyText))) =
       Inr (JStr (js '' hi ''))
   \<and> js_trim (js '' hi '') = js ''hi''
   \<and> js ''hi'' \<noteq> js '' hi ''"
  by (simp add: callModel_openaiPrefs_reply testConnection_def getConfig_openaiPrefs hi_trim)

lemma map_asciiLower_image:
  "map asciiLower (js ''image'') = js ''image''" "map asciiLower (js ''Image'') = js ''image''"
  by (simp_all add: asciiLower_def js_def)

lemma namesImage_ignoring_case:
  assumes "namesImage e"
  shows "includesIgnoringCase (errorMessage e) (js ''image'')"
proof -
  from assms consider "js_includes (errorMessage e) (js ''image'')"
    | "js_includes (errorMessage e) (js ''Image'')"
    by (auto simp: namesImage_def)
  then show ?thesis
  proof cases
    case 1
    from js_includes_map [OF this, of asciiLower] show ?thesis
      by (simp add: includesIgnoringCase_def map_asciiLower_image)
  next
    case 2
    from js_includes_map [OF this, of asciiLower] show ?thesis
      by (simp add: includesIgnoringCase_def map_asciiLower_image)
  qed
qed

lemma config_error_names_no_image:
  "\<not> namesImage (Error (js ''OpenAI API key not configured. Please set it in Vibe Translate preferences.''))"
  "\<not> namesImage (Error (js ''Bedrock API key not configured. Please set it in Vibe Translate preferences.''))"
  by (simp_all add: namesImage_def js_def)

lemma getConfig_error:
  assumes "getConfig E = Inl e"
  shows "\<not> namesImage e"
proof (cases "resolvedProvider E = js ''openai''")
  case True
  with assms show ?thesis
    by (auto simp: getConfig_openai config_error_names_no_image split: if_splits)
next
  case False
  with assms show ?thesis
    by (auto simp: getConfig_bedrock config_error_names_no_image split: if_splits)
qed

lemma firstCall_no_config: "getConfig E = Inl e \<Longrightarrow> firstCall E input = (Inl e, [])"
  by (simp add: firstCall_def callModel_no_config)

lemma fallbackCall_log:
  "length (snd (fallbackCall E input log)) \<le> Suc (length log)"
proof -
  let ?c = "callModel E log
       (buildSystemPrompt (targetLanguageOf E) (isSingleWord (text' input)) False)
       (userTextOf input) None"
  have "snd ?c = log \<or> (\<exists>req. snd ?c = log @ [req])" by (rule callModel_log)
  then have "length (snd ?c) \<le> Suc (length log)" by auto
  then show ?thesis by (simp add: fallbackCall_def)
qed

lemma translateText_first_failed:
  assumes "firstCall E input = (Inl e, log)"
  shows "translateText E input =
           (if hasScreenshot input \<and> namesImage e then
              (trimmedResult E (fst (fallbackCall E input log)), snd (fallbackCall E input log))
            else (Inl e, log))"
proof (cases "getConfig E")
  case (Inl ce)
  with assms have "e = ce" "log = []" by (simp_all add: firstCall_no_config)
  with Inl getConfig_error [OF Inl] show ?thesis by (simp add: translateText_unfold)
next
  case (Inr cfg)
  with assms show ?thesis
    by (simp add: translateText_unfold trimmedResult_def split: prod.splits)
qed

lemma pngInput_simps:
  "hasScreenshot pngInput"
  "pageScreenshot pngInput = Some (dataUri (js ''png'') (js ''AAAA''))"
  "text' pngInput = js ''run''"
  by (simp_all add: pngInput_def hasScreenshot_def dataUri_nonempty)

lemma plainInput_simps:
  "\<not> hasScreenshot plainInput"
  "pageScreenshot plainInput = None"
  "text' plainInput = js ''run''"
  by (simp_all add: plainInput_def hasScreenshot_def)

lemma run_single: "isSingleWord (js ''run'')"
  by (simp add: isSingleWord_def js_trim_def isWhiteSpace_def js_def)

lemma userTextOf_pngInput: "userTextOf pngInput = js ''Word: run''"
  by (simp add: userTextOf_def pngInput_simps run_single) (simp add: js_def)

lemma firstCall_refused:
  "firstCall (exampleEnv bedrockPrefs (imageRefusingServer r)) pngInput =
     (Inl (Error (httpErrorMessage ''Bedrock'' 400 r)),
      [bedrockRequest bedrockExampleConfig (js ''model-1'')
         (buildBedrockBody (buildSystemPrompt (js ''zh-CN'') True True) (js ''Word: run'')
            (Some (dataUri (js ''png'') (js ''AAAA''))))])"
  by (simp add: firstCall_def callModel_bedrock [OF getConfig_bedrockPrefs] bedrock_not_openai
        pref_simps imageRefusingServer_def callBedrock_settled_rejected textResponse_simps
        pngInput_simps run_single userTextOf_pngInput targetLanguageOf_bedrockPrefs
        bedrockExampleConfig_def)

lemma firstCall_plain_refused:
  "fst (firstCall (exampleEnv bedrockPrefs (imageRefusingServer r)) plainInput) =
     Inl (Error (httpErrorMessage ''Bedrock'' 400 r))"
  "length (snd (firstCall (exampleEnv bedrockPrefs (imageRefusingServer r)) plainInput)) = 1"
  by (simp_all add: firstCall_def callModel_bedrock [OF getConfig_bedrockPrefs] bedrock_not_openai
        pref_simps imageRefusingServer_def callBedrock_settled_rejected textResponse_simps)

lemma fallbackCall_answered:
  "fallbackCall (exampleEnv bedrockPrefs (imageRefusingServer r)) pngInput [req] =
     (Inr (JStr (js ''ok'')),
      [req, bedrockRequest bedrockExampleConfig (js ''model-1'')
         (buildBedrockBody (buildSystemPrompt (js ''zh-CN'') True False) (js ''Word: run'') None)])"
  by (simp add: fallbackCall_def callModel_bedrock [OF getConfig_bedrockPrefs] bedrock_not_openai
        pref_simps imageRefusingServer_def bedrock_settled_reply
        pngInput_simps run_single userTextOf_pngInput targetLanguageOf_bedrockPrefs
        bedrockExampleConfig_def)

lemma refusal_names_image:
  "namesImage (Error (js ''Bedrock API error (400): image input not supported''))"
  "\<not> namesImage (Error (js ''Bedrock API error (400): IMAGE INPUT NOT SUPPORTED''))"
  "includesIgnoringCase (js ''Bedrock API error (400): IMAGE INPUT NOT SUPPORTED'') (js ''image'')"
  by (simp_all add: namesImage_def includesIgnoringCase_def asciiLower_def js_def)

lemma server_error_message:
  "httpErrorMessage ''Bedrock'' 400 (js ''server error'') = js ''Bedrock API error (400): server error''"
  "\<not> includesIgnoringCase (js ''Bedrock API error (400): server error'') (js ''image'')"
  "js ''Bedrock API error (400): server error'' \<noteq> []"
  by (simp_all add: httpErrorMessage_def showNat_examples includesIgnoringCase_def)
     (simp_all add: js_def asciiLower_def)

lemma prompts_always_differ:
  "buildSystemPrompt lang sw True \<noteq> buildSystemPrompt lang sw False"
  by (cases sw) (simp_all add: buildSystemPrompt_def js_def)

text \<open>
  Claim C1, as amended. When the first call of \<open>translateText\<close> fails, an image was
  attached and the message of the error contains \<open>image\<close> or \<open>Image\<close>, the operation
  makes one more call, without the image, and returns its trimmed result or its error;
  otherwise, and so whenever the message does not contain \<open>image\<close> in any case of the
  letters, it rejects with the error of the first call and makes no other call.
\<close>

theorem translateText_image_fallback:
  assumes "firstCall E input = (Inl e, log)"
  shows "(hasScreenshot input \<and> namesImage e \<longrightarrow>
            translateText E input =
              (trimmedResult E (fst (fallbackCall E input log)), snd (fallbackCall E input log))
            \<and> length (snd (translateText E input)) \<le> Suc (length log))
       \<and> (\<not> (hasScreenshot input \<and> namesImage e) \<longrightarrow> translateText E input = (Inl e, log))
       \<and> (\<not> includesIgnoringCase (errorMessage e) (js ''image'') \<longrightarrow>
            translateText E input = (Inl e, log))"
proof -
  note t = translateText_first_failed [OF assms]
  have 1: "hasScreenshot input \<and> namesImage e \<longrightarrow>
            translateText E input =
              (trimmedResult E (fst (fallbackCall E input log)), snd (fallbackCall E input log))
            \<and> length (snd (translateText E input)) \<le> Suc (length log)"
    using t fallbackCall_log [of E input log] by simp
  have 2: "\<not> (hasScreenshot input \<and> namesImage e) \<longrightarrow> translateText E input = (Inl e, log)"
    using t by simp
  have 3: "\<not> includesIgnoringCase (errorMessage e) (js ''image'') \<longrightarrow>
            translateText E input = (Inl e, log)"
    using t namesImage_ignoring_case [of e] by auto
  from 1 2 3 show ?thesis by blast
qed

text \<open>
  The theorem for a server that refuses the first request: naming the image, with a
  screenshot attached and with none, and naming no image.
\<close>

theorem translateText_image_fallback_witness:
  "hasScreenshot pngInput
   \<and> fst (firstCall (exampleEnv bedrockPrefs (imageRefusingServer (js ''image input not supported''))) pngInput) =
       Inl (Error (js ''Bedrock API error (400): image input not supported''))
   \<and> length (snd (firstCall (exampleEnv bedrockPrefs (imageRefusingServer (js ''image input not supported''))) pngInput)) = 1
   \<and> namesImage (Error (js ''Bedrock API error (400): image input not supported''))
   \<and> fst (translateText (exampleEnv bedrockPrefs (imageRefusingServer (js ''image input not supported''))) pngInput) =
       Inr (js ''ok'')
   \<and> length (snd (translateText (exampleEnv bedrockPrefs (imageRefusingServer (js ''image input not supported''))) pngInput)) = 2
   \<and> \<not> hasScreenshot plainInput
   \<and> fst (firstCall (exampleEnv bedrockPrefs (imageRefusingServer (js ''image input not supported''))) plainInput) =
       Inl (Error (js ''Bedrock API error (400): image input not supported''))
   \<and> fst (translateText (exampleEnv bedrockPrefs (imageRefusingServer (js ''image input not supported''))) plainInput) =
       Inl (Error (js ''Bedrock API error (400): image input not supported''))
   \<and> length (snd (translateText (exampleEnv bedrockPrefs (imageRefusingServer (js ''image input not supported''))) plainInput)) = 1
   \<and> fst (firstCall (exampleEnv bedrockPrefs (imageRefusingServer (js ''server error''))) pngInput) =
       Inl (Error (js ''Bedrock API error (400): server error''))
   \<and> \<not> includesIgnoringCase (js ''Bedrock API error (400): server error'') (js ''image'')
   \<and> fst (translateText (exampleEnv bedrockPrefs (imageRefusingServer (js ''server error''))) pngInput) =
       Inl (Error (js ''Bedrock API error (400): server error''))
   \<and> length (snd (translateText (exampleEnv bedrockPrefs (imageRefusingServer (js ''server error''))) pngInput)) = 1"
proof -
  let ?E = "exampleEnv bedrockPrefs (imageRefusingServer (js ''image input not supported''))"
  let ?e = "Error (js ''Bedrock API error (400): image input not supported'')"
  let ?S = "exampleEnv bedrockPrefs (imageRefusingServer (js ''server error''))"
  let ?s = "Error (js ''Bedrock API error (400): server error'')"
  obtain req where f: "firstCall ?E pngInput = (Inl ?e, [req])"
    by (simp add: firstCall_refused httpErrorMessage_examples)
  from translateText_image_fallback [OF f]
  have "translateText ?E pngInput =
          (trimmedResult ?E (fst (fallbackCall ?E pngInput [req])), snd (fallbackCall ?E pngInput [req]))"
    by (simp add: pngInput_simps refusal_names_image)
  then have 1: "fst (translateText ?E pngInput) = Inr (js ''ok'')"
    "length (snd (translateText ?E pngInput)) = 2"
    by (simp_all add: fallbackCall_answered trimmedResult_def result_trim_def hi_trim)
  obtain log where p: "firstCall ?E plainInput = (Inl ?e, log)" "length log = 1"
    using firstCall_plain_refused [of "js ''image input not supported''"]
    by (cases "firstCall ?E plainInput") (simp add: httpErrorMessage_examples)
  from translateText_image_fallback [OF p(1)]
  have 2: "translateText ?E plainInput = (Inl ?e, log)"
    by (simp add: plainInput_simps)
  obtain req' where s: "firstCall ?S pngInput = (Inl ?s, [req'])"
    by (simp add: firstCall_refused server_error_message)
  from translateText_image_fallback [OF s]
  have 3: "translateText ?S pngInput = (Inl ?s, [req'])"
    by (simp add: server_error_message)
  from f 1 p 2 s 3 show ?thesis
    by (simp add: pngInput_simps plainInput_simps refusal_names_image server_error_message)
qed

text \<open>
  Claim C1 as stated fails for a message that names the image in capitals: the error is
  passed on and one request only has been issued.
\<close>

theorem translateText_image_fallback_counterexample:
  "hasScreenshot pngInput
   \<and> fst (firstCall (exampleEnv bedrockPrefs (imageRefusingServer (js ''IMAGE INPUT NOT SUPPORTED''))) pngInput) =
       Inl (Error (js ''Bedrock API error (400): IMAGE INPUT NOT SUPPORTED''))
   \<and> includesIgnoringCase (js ''Bedrock API error (400): IMAGE INPUT NOT SUPPORTED'') (js ''image'')
   \<and> fst (translateText (exampleEnv bedrockPrefs (imageRefusingServer (js ''IMAGE INPUT NOT SUPPORTED''))) pngInput) =
       Inl (Error (js ''Bedrock API error (400): IMAGE INPUT NOT SUPPORTED''))
   \<and> length (snd (translateText (exampleEnv bedrockPrefs (imageRefusingServer (js ''IMAGE INPUT NOT SUPPORTED''))) pngInput)) = 1"
proof -
  let ?E = "exampleEnv bedrockPrefs (imageRefusingServer (js ''IMAGE INPUT NOT SUPPORTED''))"
  let ?e = "Error (js ''Bedrock API error (400): IMAGE INPUT NOT SUPPORTED'')"
  obtain req where f: "firstCall ?E pngInput = (Inl ?e, [req])"
    by (simp add: firstCall_refused httpErrorMessage_examples)
  from translateText_first_failed [OF f]
  have "translateText ?E pngInput = (Inl ?e, [req])"
    by (simp add: refusal_names_image)
  with f show ?thesis by (simp add: pngInput_simps refusal_names_image)
qed

text \<open>
  Claim C2, as amended. When \<open>translateText\<close> falls back, the body of the second
  request is built from the same user text as the first, no image, and the system prompt
  of the template without a screenshot, which is never the prompt of the first request.
\<close>

theorem fallback_request:
  assumes cfg: "getConfig E = Inr cfg"
    and shot: "hasScreenshot input"
    and first: "firstCall E input = (Inl e, [req1])"
    and img: "namesImage e"
  shows "\<exists>req2. snd (translateText E input) = [req1, req2]
           \<and> body req1 =
               (if provider cfg = js ''openai'' then
                  buildOpenAIBody
                    (buildSystemPrompt (targetLanguageOf E) (isSingleWord (text' input)) True)
                    (userTextOf input) (pageScreenshot input) (modelId cfg)
                else
                  buildBedrockBody
                    (buildSystemPrompt (targetLanguageOf E) (isSingleWord (text' input)) True)
                    (userTextOf input) (pageScreenshot input))
           \<and> (body req2 =
                  buildBedrockBody
                    (buildSystemPrompt (targetLanguageOf E) (isSingleWord (text' input)) False)
                    (userTextOf input) None
                \<or> (\<exists>model. body req2 =
                      buildOpenAIBody
                        (buildSystemPrompt (targetLanguageOf E) (isSingleWord (text' input)) False)
                        (userTextOf input) None model))
           \<and> buildSystemPrompt (targetLanguageOf E) (isSingleWord (text' input)) False \<noteq>
               buildSystemPrompt (targetLanguageOf E) (isSingleWord (text' input)) True"
proof -
  let ?sp1 = "buildSystemPrompt (targetLanguageOf E) (isSingleWord (text' input)) True"
  let ?sp0 = "buildSystemPrompt (targetLanguageOf E) (isSingleWord (text' input)) False"
  let ?ut = "userTextOf input"
  have d: "?sp0 \<noteq> ?sp1" using prompts_always_differ [of "targetLanguageOf E"] by metis
  from translateText_first_failed [OF first] shot img
  have t: "snd (translateText E input) = snd (fallbackCall E input [req1])" by simp
  show ?thesis
  proof (cases "provider cfg = js ''openai''")
    case True
    from first shot have 1: "req1 = openaiRequest cfg (buildOpenAIBody ?sp1 ?ut (pageScreenshot input) (modelId cfg))"
      by (simp add: firstCall_def callModel_openai [OF cfg True])
    have 2: "snd (fallbackCall E input [req1]) =
               [req1, openaiRequest cfg (buildOpenAIBody ?sp0 ?ut None (modelId cfg))]"
      by (simp add: fallbackCall_def callModel_openai [OF cfg True])
    from t 1 2 True d show ?thesis
      by (auto simp: request_fields(6))
  next
    case False
    show ?thesis
    proof (cases "encodeURIComponent E (modelId cfg)")
      case (Inl msg)
      with first cfg False have False
        by (simp add: firstCall_def callModel_bedrock_no_request)
      then show ?thesis ..
    next
      case (Inr enc)
      from first shot have 1: "req1 = bedrockRequest cfg enc (buildBedrockBody ?sp1 ?ut (pageScreenshot input))"
        by (simp add: firstCall_def callModel_bedrock [OF cfg False Inr])
      have 2: "snd (fallbackCall E input [req1]) =
               [req1, bedrockRequest cfg enc (buildBedrockBody ?sp0 ?ut None)]"
        by (simp add: fallbackCall_def callModel_bedrock [OF cfg False Inr])
      from t 1 2 False d show ?thesis
        by (simp add: request_fields(3))
    qed
  qed
qed

text \<open>The theorem for a server that refuses the image of the first request.\<close>

theorem fallback_request_witness:
  "getConfig (exampleEnv bedrockPrefs (imageRefusingServer (js ''image input not supported''))) =
     Inr bedrockExampleConfig
   \<and> hasScreenshot pngInput
   \<and> fst (firstCall (exampleEnv bedrockPrefs (imageRefusingServer (js ''image input not supported''))) pngInput) =
       Inl (Error (js ''Bedrock API error (400): image input not supported''))
   \<and> length (snd (firstCall (exampleEnv bedrockPrefs (imageRefusingServer (js ''image input not supported''))) pngInput)) = 1
   \<and> namesImage (Error (js ''Bedrock API error (400): image input not supported''))
   \<and> map body (snd (translateText (exampleEnv bedrockPrefs (imageRefusingServer (js ''image input not supported''))) pngInput)) =
       [buildBedrockBody (buildSystemPrompt (js ''zh-CN'') True True) (js ''Word: run'')
          (Some (dataUri (js ''png'') (js ''AAAA''))),
        buildBedrockBody (buildSystemPrompt (js ''zh-CN'') True False) (js ''Word: run'') None]"
proof -
  let ?E = "exampleEnv bedrockPrefs (imageRefusingServer (js ''image input not supported''))"
  let ?e = "Error (js ''Bedrock API error (400): image input not supported'')"
  have g: "getConfig ?E = Inr bedrockExampleConfig"
    by (simp add: getConfig_bedrockPrefs bedrockExampleConfig_def)
  obtain req1 where f: "firstCall ?E pngInput = (Inl ?e, [req1])"
    by (simp add: firstCall_refused httpErrorMessage_examples)
  from fallback_request [OF g pngInput_simps(1) f refusal_names_image(1)]
  obtain req2 where r: "snd (translateText ?E pngInput) = [req1, req2]"
    "body req1 = buildBedrockBody (buildSystemPrompt (js ''zh-CN'') True True) (js ''Word: run'')
          (Some (dataUri (js ''png'') (js ''AAAA'')))"
    by (auto simp: bedrockExampleConfig_def bedrock_not_openai targetLanguageOf_bedrockPrefs
          pngInput_simps run_single userTextOf_pngInput)
  from translateText_first_failed [OF f]
  have "snd (translateText ?E pngInput) =
          [req1, bedrockRequest bedrockExampleConfig (js ''model-1'')
             (buildBedrockBody (buildSystemPrompt (js ''zh-CN'') True False) (js ''Word: run'') None)]"
    by (simp add: pngInput_simps refusal_names_image fallbackCall_answered)
  with r(1) have "req2 = bedrockRequest bedrockExampleConfig (js ''model-1'')
             (buildBedrockBody (buildSystemPrompt (js ''zh-CN'') True False) (js ''Word: run'') None)"
    by simp
  then have b: "body req2 =
      buildBedrockBody (buildSystemPrompt (js ''zh-CN'') True False) (js ''Word: run'') None"
    by (simp only: request_fields(3))
  from g f r b show ?thesis by (simp add: pngInput_simps refusal_names_image)
qed

text \<open>
  Claim C2 as stated fails: the system prompts of the two requests differ.
\<close>

theorem fallback_request_counterexample:
  "length (snd (translateText (exampleEnv bedrockPrefs (imageRefusingServer (js ''image input not supported''))) pngInput)) = 2
   \<and> getProp (body (snd (translateText (exampleEnv bedrockPrefs (imageRefusingServer (js ''image input not supported''))) pngInput) ! 0))
        (js ''system'') =
       JArr [JObj [(js ''text'', JStr (buildSystemPrompt (js ''zh-CN'') True True))]]
   \<and> getProp (body (snd (translateText (exampleEnv bedrockPrefs (imageRefusingServer (js ''image input not supported''))) pngInput) ! 1))
        (js ''system'') =
       JArr [JObj [(js ''text'', JStr (buildSystemPrompt (js ''zh-CN'') True False))]]
   \<and> buildSystemPrompt (js ''zh-CN'') True True \<noteq> buildSystemPrompt (js ''zh-CN'') True False"
proof -
  let ?E = "exampleEnv bedrockPrefs (imageRefusingServer (js ''image input not supported''))"
  let ?e = "Error (js ''Bedrock API error (400): image input not supported'')"
  let ?r1 = "bedrockRequest bedrockExampleConfig (js ''model-1'')
         (buildBedrockBody (buildSystemPrompt (js ''zh-CN'') True True) (js ''Word: run'')
            (Some (dataUri (js ''png'') (js ''AAAA''))))"
  have f: "firstCall ?E pngInput = (Inl ?e, [?r1])"
    by (simp add: firstCall_refused httpErrorMessage_examples)
  from translateText_first_failed [OF f]
  have "snd (translateText ?E pngInput) =
          [?r1, bedrockRequest bedrockExampleConfig (js ''model-1'')
             (buildBedrockBody (buildSystemPrompt (js ''zh-CN'') True False) (js ''Word: run'') None)]"
    by (simp add: pngInput_simps refusal_names_image fallbackCall_answered)
  then show ?thesis
    by (simp add: request_fields(3) getProp_system prompts_always_differ)
qed

end
